theory Spec2Isabelle
  imports Main "HOL-Library.Sublist"
begin

section \<open>The job pipeline of server.js\<close>

text \<open>
  The server keeps one \<open>AudioProcessor\<close> object per submitted recording in the global
  \<open>processingJobs\<close> map and drives it through conversion (ffmpeg), transcription
  (whisper-cli), summarisation (ollama) and an optional HubSpot attach step.

  JavaScript objects are shared by reference: the map holds the processor object itself,
  and every assignment to \<open>this\<close> is visible through the map at once. The model keeps
  an object store (reference to object) beside the map (process id to reference).
  Everything the program cannot decide itself (exit codes of the child processes, what
  they wrote, the clock, whether a file operation fails) is read from an environment
  record; every call that leaves the process is appended to a log.

  A JavaScript string is modelled as a \<open>string\<close>, one \<open>char\<close> per code unit.
\<close>

subsection \<open>Data\<close>

text \<open>The status strings the program writes: \<open>'started'\<close>, \<open>'pending'\<close>,
  \<open>'processing'\<close>, \<open>'completed'\<close>, \<open>'error'\<close>.\<close>

datatype state = Started | Pending | Processing | Completed | Error

datatype step_name = Conversion | Transcription | Summary | Hubspot

text \<open>The \<open>data\<close> argument of \<open>updateStep\<close>: \<open>{}\<close>, \<open>{ outputPath }\<close> or \<open>{ error }\<close>.\<close>

datatype payload = NoData | OutputPath string | ErrorDetail string

record step =
  step_status :: state
  step_data :: payload

text \<open>\<open>attachToHubspot_flag\<close> is the truthiness of \<open>metadata.attachToHubspot\<close>.\<close>

record job_metadata =
  clientName :: "string option"
  caseNumber :: "string option"
  meetingNotes :: "string option"
  originalFileName :: string
  uploadedAt :: string
  attachToHubspot_flag :: bool

record job_results =
  wavFile :: "string option"
  transcription :: "string option"
  summary :: "string option"

record audio_processor =
  processId :: string
  audioFile :: string
  metadata :: job_metadata
  status :: state
  steps :: "step_name \<Rightarrow> step"
  results :: job_results
  error :: "string option"

text \<open>
  What a child process reports. \<open>Close code\<close> is the \<open>close\<close> event with the exit code
  (\<open>null\<close> when a signal ended the process). \<open>SpawnError msg code\<close> is a failed launch:
  the \<open>error\<close> event with the message of the error, and then the \<open>close\<close> event that
  Node sends after it, whose code is the negative error number and so never zero. Both
  handlers run: the first rejects the promise, the second takes its failure branch and
  writes the step again.
\<close>

datatype child = Close "int option" | SpawnError string int

datatype effect =
    Spawn string "string list"
  | Stdin string
  | ReadFile string
  | WriteFile string string
  | Unlink string
  | HubspotApi

text \<open>
  The environment of one job run. \<open>ffmpeg_out\<close> and \<open>whisper_txt\<close> are what the tools
  left at their output paths (\<open>None\<close>: nothing); \<open>transcript_write\<close> and
  \<open>summary_write\<close> are \<open>None\<close> when \<open>fs.writeFile\<close> succeeds and the message of the
  error it throws otherwise; \<open>transcript_now\<close> and \<open>summary_now\<close> are
  \<open>new Date().toISOString()\<close> at the two places it is read.
\<close>

record env =
  dirname :: string
  ffmpeg :: child
  ffmpeg_out :: "string option"
  whisper :: child
  whisper_txt :: "string option"
  transcript_now :: string
  transcript_write :: "string option"
  unlink_txt_ok :: bool
  ollama :: child
  ollama_stdout :: string
  summary_now :: string
  summary_write :: "string option"
  unlink_wav_ok :: bool

record world =
  objs :: "nat \<Rightarrow> audio_processor"
  next_ref :: nat
  processingJobs :: "string \<rightharpoonup> nat"
  files :: "string \<rightharpoonup> string"
  log :: "effect list"

subsection \<open>Strings\<close>

text \<open>\<open>String.prototype.trim\<close> on code units below 256: tab, line feed, vertical tab,
  form feed, carriage return, space and no-break space.\<close>

definition is_space :: "char \<Rightarrow> bool" where
  "is_space c = (of_char c \<in> {9, 10, 11, 12, 13, 32, 160 :: nat})"

definition trim :: "string \<Rightarrow> string" where
  "trim s = rev (dropWhile is_space (rev (dropWhile is_space s)))"

definition is_alnum :: "char \<Rightarrow> bool" where
  "is_alnum c = (c \<in> set ''abcdefghijklmnopqrstuvwxyzABCDEFGHIJKLMNOPQRSTUVWXYZ0123456789'')"

text \<open>\<open>s.replace(/[^a-zA-Z0-9]/g, '-')\<close>\<close>

definition sanitize :: "string \<Rightarrow> string" where
  "sanitize s = map (\<lambda>c. if is_alnum c then c else CHR ''-'') s"

text \<open>\<open>now.slice(0, 19).replace(/[:.]/g, '-')\<close>\<close>

definition timestamp_of :: "string \<Rightarrow> string" where
  "timestamp_of now =
     map (\<lambda>c. if c = CHR '':'' \<or> c = CHR ''.'' then CHR ''-'' else c) (take 19 now)"

text \<open>\<open>name ? `_${name.replace(...)}` : ''\<close>: \<open>undefined\<close> and the empty string are falsy.\<close>

definition name_info :: "string option \<Rightarrow> string" where
  "name_info name =
     (case name of None \<Rightarrow> [] | Some n \<Rightarrow> if n = [] then [] else ''_'' @ sanitize n)"

text \<open>
  The lines that name a saved artifact, the same in \<open>transcribeAudio\<close> (\<open>kind\<close> is
  \<open>transcript\<close>) and \<open>generateSummary\<close> (\<open>summary\<close>):
  \<open>`${kind}_${timestamp}${clientInfo}${caseInfo}.txt`\<close>.
\<close>

definition save_name :: "string \<Rightarrow> string \<Rightarrow> job_metadata \<Rightarrow> string" where
  "save_name kind now md =
     (let timestamp = timestamp_of now;
          clientInfo = name_info (clientName md);
          caseInfo = name_info (caseNumber md)
      in kind @ ''_'' @ timestamp @ clientInfo @ caseInfo @ ''.txt'')"

text \<open>\<open>path.join\<close> of a directory and a file name. Its normalisation is left out: it is
  the identity on the names built here, which hold no separator and no dot segment.\<close>

definition path_join :: "string \<Rightarrow> string \<Rightarrow> string" where
  "path_join dir name = dir @ ''/'' @ name"

text \<open>\<open>path.join('temp', `${processId}.wav`)\<close>\<close>

definition wav_path :: "string \<Rightarrow> string" where
  "wav_path pid = path_join ''temp'' (pid @ ''.wav'')"

definition digit_char :: "nat \<Rightarrow> char" where
  "digit_char d = char_of (48 + d)"

fun show_nat :: "nat \<Rightarrow> string" where
  "show_nat n = (if n < 10 then [digit_char n] else show_nat (n div 10) @ [digit_char (n mod 10)])"

declare show_nat.simps [simp del]

text \<open>\<open>`${code}`\<close> for an exit code: a number or \<open>null\<close>.\<close>

definition show_code :: "int option \<Rightarrow> string" where
  "show_code code =
     (case code of
        None \<Rightarrow> ''null''
      | Some i \<Rightarrow> if i < 0 then ''-'' @ show_nat (nat (- i)) else show_nat (nat i))"

subsection \<open>The store, the registry and the file system\<close>

definition emit :: "effect \<Rightarrow> world \<Rightarrow> world" where
  "emit x w = w\<lparr>log := log w @ [x]\<rparr>"

text \<open>An assignment to a field of the object behind a reference.\<close>

definition modify :: "nat \<Rightarrow> (audio_processor \<Rightarrow> audio_processor) \<Rightarrow> world \<Rightarrow> world" where
  "modify this f w = w\<lparr>objs := (objs w)(this := f (objs w this))\<rparr>"

text \<open>\<open>processingJobs.set(id, obj)\<close>; the program has no other write to the map.\<close>

definition processingJobs_set :: "string \<Rightarrow> nat \<Rightarrow> world \<Rightarrow> world" where
  "processingJobs_set pid ref w = w\<lparr>processingJobs := (processingJobs w)(pid \<mapsto> ref)\<rparr>"

definition spawn :: "string \<Rightarrow> string list \<Rightarrow> world \<Rightarrow> world" where
  "spawn cmd args w = emit (Spawn cmd args) w"

text \<open>\<open>fs.readFile(p, 'utf8')\<close>: rejects when there is no file at \<open>p\<close>.\<close>

definition readFile :: "string \<Rightarrow> world \<Rightarrow> (string + string) \<times> world" where
  "readFile p w =
     (let w1 = emit (ReadFile p) w
      in case files w p of
           None \<Rightarrow> (Inl (''ENOENT: no such file or directory, open '' @ [CHR 0x27] @ p @ [CHR 0x27]), w1)
         | Some c \<Rightarrow> (Inr c, w1))"

text \<open>\<open>fs.writeFile(p, c)\<close>: the environment says whether it fails.\<close>

definition writeFile :: "string \<Rightarrow> string \<Rightarrow> string option \<Rightarrow> world \<Rightarrow> (string + unit) \<times> world" where
  "writeFile p c failure w =
     (let w1 = emit (WriteFile p c) w
      in case failure of
           None \<Rightarrow> (Inr (), w1\<lparr>files := (files w1)(p \<mapsto> c)\<rparr>)
         | Some msg \<Rightarrow> (Inl msg, w1))"

text \<open>\<open>fs.unlink(p).catch(() => {})\<close>: the outcome is dropped.\<close>

definition unlink :: "string \<Rightarrow> bool \<Rightarrow> world \<Rightarrow> world" where
  "unlink p ok w =
     (let w1 = emit (Unlink p) w
      in if ok then w1\<lparr>files := (files w1)(p := None)\<rparr> else w1)"

text \<open>What a finished tool left at its output path.\<close>

definition tool_output :: "string \<Rightarrow> string option \<Rightarrow> world \<Rightarrow> world" where
  "tool_output p out w =
     (case out of None \<Rightarrow> w | Some d \<Rightarrow> w\<lparr>files := (files w)(p \<mapsto> d)\<rparr>)"

subsection \<open>uuidv4\<close>

text \<open>\<open>rnd i\<close> is the \<open>i\<close>-th value of \<open>Math.random() * 16 | 0\<close>.\<close>

definition hex_digit :: "nat \<Rightarrow> char" where
  "hex_digit v = ''0123456789abcdef'' ! (v mod 16)"

fun uuid_fill :: "string \<Rightarrow> (nat \<Rightarrow> nat) \<Rightarrow> nat \<Rightarrow> string" where
  "uuid_fill [] rnd i = []"
| "uuid_fill (c # cs) rnd i =
     (if c = CHR ''x'' \<or> c = CHR ''y'' then
        (let r = rnd i mod 16;
             v = (if c = CHR ''x'' then r else r mod 4 + 8)
         in hex_digit v # uuid_fill cs rnd (Suc i))
      else c # uuid_fill cs rnd i)"

definition uuidv4 :: "(nat \<Rightarrow> nat) \<Rightarrow> string" where
  "uuidv4 rnd = uuid_fill ''xxxxxxxx-xxxx-4xxx-yxxx-xxxxxxxxxxxx'' rnd 0"

subsection \<open>AudioProcessor\<close>

definition AudioProcessor :: "string \<Rightarrow> string \<Rightarrow> job_metadata \<Rightarrow> audio_processor" where
  "AudioProcessor pid file md =
     \<lparr>processId = pid, audioFile = file, metadata = md, status = Started,
      steps = (\<lambda>_. \<lparr>step_status = Pending, step_data = NoData\<rparr>),
      results = \<lparr>wavFile = None, transcription = None, summary = None\<rparr>,
      error = None\<rparr>"

definition updateStep :: "nat \<Rightarrow> step_name \<Rightarrow> state \<Rightarrow> payload \<Rightarrow> world \<Rightarrow> world" where
  "updateStep this stepName st d w =
     (let w1 = modify this
                 (\<lambda>ob. ob\<lparr>steps := (steps ob)(stepName := \<lparr>step_status = st, step_data = d\<rparr>)\<rparr>) w
      in processingJobs_set (processId (objs w1 this)) this w1)"

text \<open>
  Each asynchronous method returns \<open>Inr\<close> its value when its promise resolves and
  \<open>Inl\<close> the message of the error when it rejects. The outer \<open>try\<close> of the three tool
  methods only guards the statements before the promise is built, which do not throw.
\<close>

definition convertAudioToWav :: "nat \<Rightarrow> env \<Rightarrow> world \<Rightarrow> (string + string) \<times> world" where
  "convertAudioToWav this e w =
     (let w1 = updateStep this Conversion Processing NoData w;
          inputPath = audioFile (objs w1 this);
          outputPath = wav_path (processId (objs w1 this));
          w2 = spawn ''ffmpeg''
                 [''-i'', inputPath, ''-acodec'', ''pcm_s16le'', ''-ar'', ''16000'', ''-ac'', ''1'',
                  outputPath, ''-y''] w1
      in case ffmpeg e of
           Close code \<Rightarrow>
             (let w3 = tool_output outputPath (ffmpeg_out e) w2
              in if code = Some 0 then
                   (let w4 = updateStep this Conversion Completed (OutputPath outputPath) w3;
                        w5 = modify this
                               (\<lambda>ob. ob\<lparr>results := (results ob)\<lparr>wavFile := Some outputPath\<rparr>\<rparr>) w4
                    in (Inr outputPath, w5))
                 else
                   (Inl (''FFmpeg failed with code '' @ show_code code),
                    updateStep this Conversion Error (ErrorDetail ''FFmpeg conversion failed'') w3))
         | SpawnError msg code \<Rightarrow>
             (let w3 = updateStep this Conversion Error (ErrorDetail msg) w2
              in (Inl msg,
                  updateStep this Conversion Error (ErrorDetail ''FFmpeg conversion failed'') w3)))"

definition transcribeAudio :: "nat \<Rightarrow> string \<Rightarrow> env \<Rightarrow> world \<Rightarrow> (string + string) \<times> world" where
  "transcribeAudio this wavPath e w =
     (let w1 = updateStep this Transcription Processing NoData w;
          modelPath = path_join (path_join (dirname e) ''models'') ''ggml-base.en.bin'';
          w2 = spawn ''whisper-cli''
                 [''-m'', modelPath, ''--output-txt'', ''--no-timestamps'', ''--language'', ''en'',
                  wavPath] w1
      in case whisper e of
           Close code \<Rightarrow>
             (let txtPath = wavPath @ ''.txt'';
                  w3 = tool_output txtPath (whisper_txt e) w2
              in if code = Some 0 then
                   (case readFile txtPath w3 of
                      (Inl readError, w4) \<Rightarrow>
                        (Inl readError,
                         updateStep this Transcription Error
                           (ErrorDetail ''Failed to read transcript file'') w4)
                    | (Inr content, w4) \<Rightarrow>
                        (let w5 = updateStep this Transcription Completed NoData w4;
                             w6 = modify this
                                    (\<lambda>ob. ob\<lparr>results :=
                                       (results ob)\<lparr>transcription := Some (trim content)\<rparr>\<rparr>) w5;
                             transcriptFileName =
                               save_name ''transcript'' (transcript_now e) (metadata (objs w6 this));
                             transcriptSavePath = path_join ''transcripts'' transcriptFileName
                         in case writeFile transcriptSavePath (trim content) (transcript_write e) w6 of
                              (Inl readError, w7) \<Rightarrow>
                                (Inl readError,
                                 updateStep this Transcription Error
                                   (ErrorDetail ''Failed to read transcript file'') w7)
                            | (Inr _, w7) \<Rightarrow>
                                (Inr (trim content), unlink txtPath (unlink_txt_ok e) w7)))
                 else
                   (Inl (''Whisper-cli failed with code '' @ show_code code),
                    updateStep this Transcription Error
                      (ErrorDetail (''Whisper-cli failed with code '' @ show_code code)) w3))
         | SpawnError msg code \<Rightarrow>
             (let w3 = updateStep this Transcription Error (ErrorDetail msg) w2
              in (Inl msg,
                  updateStep this Transcription Error
                    (ErrorDetail (''Whisper-cli failed with code '' @ show_code (Some code))) w3)))"

text \<open>The fixed part of the prompt, up to \<open>${transcription}\<close>.\<close>

definition legalPrompt_head :: string where
  "legalPrompt_head =
     ''**Situation** You are an expert legal secretary working in a law firm environment where case documentation and file management are critical to legal proceedings. You need to process court transcripts and depositions to create concise summaries for case file integration.'' @ [CHR 0x0A] @
     [CHR 0x0A] @
     ''**Task** The assistant should analyze the provided transcript and create a structured summary suitable for inclusion in a legal case file. The assistant should extract key information, identify critical testimony, and organize findings in a format that legal professionals can quickly reference.'' @ [CHR 0x0A] @
     [CHR 0x0A] @
     ''**Objective** Create a professional case file summary that enables legal team members to quickly understand the transcript'' @ [CHR 0x27] @ ''s key points, evidence presented, and testimony given without reading the full document.'' @ [CHR 0x0A] @
     [CHR 0x0A] @
     ''**Knowledge** Legal transcripts typically contain:'' @ [CHR 0x0A] @
     ''- Witness testimony under oath'' @ [CHR 0x0A] @
     ''- Attorney questioning (direct and cross-examination)'' @ [CHR 0x0A] @
     ''- Judicial rulings and objections'' @ [CHR 0x0A] @
     ''- Evidence presentations'' @ [CHR 0x0A] @
     ''- Procedural matters'' @ [CHR 0x0A] @
     [CHR 0x0A] @
     ''Case file summaries must maintain accuracy and legal precision while condensing information. The summary should preserve the legal significance of statements and maintain chronological flow when relevant.'' @ [CHR 0x0A] @
     [CHR 0x0A] @
     ''**Instructions** The assistant should:'' @ [CHR 0x0A] @
     ''1. Create a summary between 300-500 words maximum'' @ [CHR 0x0A] @
     ''2. Structure the output with clear headings: Case Information, Key Testimony, Evidence Presented, Notable Rulings, and Action Items'' @ [CHR 0x0A] @
     ''3. Use objective, professional language appropriate for legal documentation'' @ [CHR 0x0A] @
     ''4. Identify each witness by name and role when summarizing their testimony'' @ [CHR 0x0A] @
     ''5. When conflicting testimony occurs, note both positions without editorial commentary'' @ [CHR 0x0A] @
     [CHR 0x0A] @
     ''**Transcript to Analyze:**'' @ [CHR 0x0A]"

definition generateSummary :: "nat \<Rightarrow> string \<Rightarrow> env \<Rightarrow> world \<Rightarrow> (string + string) \<times> world" where
  "generateSummary this transcript e w =
     (let w1 = updateStep this Summary Processing NoData w;
          legalPrompt = legalPrompt_head @ transcript;
          w2 = emit (Stdin legalPrompt) (spawn ''ollama'' [''run'', ''gemma3:12b''] w1)
      in case ollama e of
           Close code \<Rightarrow>
             (let stdout = ollama_stdout e
              in if code = Some 0 \<and> trim stdout \<noteq> [] then
                   (let w3 = updateStep this Summary Completed NoData w2;
                        w4 = modify this
                               (\<lambda>ob. ob\<lparr>results := (results ob)\<lparr>summary := Some (trim stdout)\<rparr>\<rparr>) w3;
                        summaryFileName =
                          save_name ''summary'' (summary_now e) (metadata (objs w4 this));
                        summarySavePath = path_join ''summaries'' summaryFileName
                    in case writeFile summarySavePath (trim stdout) (summary_write e) w4 of
                         (_, w5) \<Rightarrow> (Inr (trim stdout), w5))
                 else
                   (Inl (''Ollama failed with code '' @ show_code code),
                    updateStep this Summary Error (ErrorDetail ''Summary generation failed'') w2))
         | SpawnError msg code \<Rightarrow>
             (let w3 = updateStep this Summary Error (ErrorDetail msg) w2
              in (Inl msg,
                  updateStep this Summary Error (ErrorDetail ''Summary generation failed'') w3)))"

text \<open>
  The body of \<open>attachToHubspot\<close> is a placeholder for the HubSpot call: a one second
  timer that always resolves, logged here as \<open>HubspotApi\<close>. Nothing in its \<open>try\<close> throws,
  so its \<open>catch\<close> is never entered and the promise always resolves.
\<close>

definition attachToHubspot :: "nat \<Rightarrow> world \<Rightarrow> (string + bool \<times> string) \<times> world" where
  "attachToHubspot this w =
     (let w1 = updateStep this Hubspot Processing NoData w;
          w2 = emit HubspotApi w1;
          w3 = updateStep this Hubspot Completed NoData w2
      in (Inr (True, ''Attached to HubSpot successfully''), w3))"

text \<open>\<open>this.results.wavFile\<close> is truthy when it is set and not the empty string.\<close>

definition cleanup :: "nat \<Rightarrow> env \<Rightarrow> world \<Rightarrow> world" where
  "cleanup this e w =
     (case wavFile (results (objs w this)) of
        None \<Rightarrow> w
      | Some p \<Rightarrow> if p = [] then w else unlink p (unlink_wav_ok e) w)"

text \<open>The \<open>catch\<close> block of \<open>process\<close>.\<close>

definition process_catch ::
  "nat \<Rightarrow> string \<Rightarrow> world \<Rightarrow> (string + string \<times> string \<times> job_metadata) \<times> world" where
  "process_catch this msg w =
     (let w1 = modify this (\<lambda>ob. ob\<lparr>status := Error, error := Some msg\<rparr>) w
      in (Inl msg, processingJobs_set (processId (objs w1 this)) this w1))"

definition process ::
  "nat \<Rightarrow> env \<Rightarrow> world \<Rightarrow> (string + string \<times> string \<times> job_metadata) \<times> world" where
  "process this e w =
     (let w0 = modify this (\<lambda>ob. ob\<lparr>status := Processing\<rparr>) w;
          w1 = processingJobs_set (processId (objs w0 this)) this w0
      in case convertAudioToWav this e w1 of
           (Inl msg, w2) \<Rightarrow> process_catch this msg w2
         | (Inr wavPath, w2) \<Rightarrow>
             (case transcribeAudio this wavPath e w2 of
                (Inl msg, w3) \<Rightarrow> process_catch this msg w3
              | (Inr transcript, w3) \<Rightarrow>
                  (case generateSummary this transcript e w3 of
                     (Inl msg, w4) \<Rightarrow> process_catch this msg w4
                   | (Inr summ, w4) \<Rightarrow>
                       (case (if attachToHubspot_flag (metadata (objs w4 this))
                              then attachToHubspot this w4
                              else (Inr (True, []), w4)) of
                          (Inl msg, w5) \<Rightarrow> process_catch this msg w5
                        | (Inr _, w5) \<Rightarrow>
                            (let w6 = modify this (\<lambda>ob. ob\<lparr>status := Completed\<rparr>) w5;
                                 w7 = processingJobs_set (processId (objs w6 this)) this w6;
                                 w8 = cleanup this e w7
                             in (Inr (transcript, summ, metadata (objs w8 this)), w8))))))"

subsection \<open>The routes\<close>

text \<open>
  \<open>req.file\<close> and \<open>req.body\<close> of \<open>POST /api/process-audio\<close>. The body holds every text
  field of the form; the model keeps the three the handler reads and
  \<open>attachToHubspot\<close>, the name under which the pipeline looks for an attach request.
\<close>

record upload_file =
  file_path :: string
  file_originalname :: string

record request_body =
  body_clientName :: "string option"
  body_caseNumber :: "string option"
  body_meetingNotes :: "string option"
  body_attachToHubspot :: "string option"

record upload_request =
  req_file :: "upload_file option"
  req_body :: request_body

text \<open>\<open>NoAudioFile\<close> is the 400 answer; \<open>ProcessingStarted processId\<close> is
  \<open>{ processId, message: 'Processing started', status: 'started' }\<close>.\<close>

datatype process_audio_response = NoAudioFile | ProcessingStarted string

text \<open>
  The \<open>metadata\<close> literal of the handler: five fields, none of them an attach flag, so
  \<open>metadata.attachToHubspot\<close> is \<open>undefined\<close> on every processor the handler creates.
\<close>

definition request_metadata :: "upload_request \<Rightarrow> upload_file \<Rightarrow> string \<Rightarrow> job_metadata" where
  "request_metadata req f now =
     \<lparr>clientName = body_clientName (req_body req),
      caseNumber = body_caseNumber (req_body req),
      meetingNotes = body_meetingNotes (req_body req),
      originalFileName = file_originalname f,
      uploadedAt = now,
      attachToHubspot_flag = False\<rparr>"

text \<open>
  The handler: it creates and registers the processor and returns its reference. \<open>rnd\<close>
  feeds \<open>uuidv4\<close>, \<open>now\<close> is \<open>new Date().toISOString()\<close>. The source's handler also calls
  \<open>processor.process()\<close> before it answers, so the job is \<open>processing\<close> with ffmpeg
  spawned by then; here the whole of \<open>process\<close> is the separate operation that follows,
  and the state \<open>started\<close> that this function leaves is an intermediate state of the
  model only.
\<close>

definition post_process_audio ::
  "upload_request \<Rightarrow> (nat \<Rightarrow> nat) \<Rightarrow> string \<Rightarrow> world
     \<Rightarrow> (process_audio_response \<times> nat option) \<times> world" where
  "post_process_audio req rnd now w =
     (case req_file req of
        None \<Rightarrow> ((NoAudioFile, None), w)
      | Some f \<Rightarrow>
          (let pid = uuidv4 rnd;
               md = request_metadata req f now;
               processor = next_ref w;
               w1 = w\<lparr>objs := (objs w)(processor := AudioProcessor pid (file_path f) md),
                      next_ref := Suc processor\<rparr>;
               w2 = processingJobs_set pid processor w1
           in ((ProcessingStarted pid, Some processor), w2)))"

text \<open>A submission followed by the whole background run of its pipeline.\<close>

definition submit_and_process ::
  "upload_request \<Rightarrow> (nat \<Rightarrow> nat) \<Rightarrow> string \<Rightarrow> env \<Rightarrow> world
     \<Rightarrow> (process_audio_response \<times> nat option) \<times> world" where
  "submit_and_process req rnd now e w =
     (case post_process_audio req rnd now w of
        ((r, None), w1) \<Rightarrow> ((r, None), w1)
      | ((r, Some processor), w1) \<Rightarrow> ((r, Some processor), snd (process processor e w1)))"

record status_response =
  resp_processId :: string
  resp_status :: state
  resp_steps :: "step_name \<Rightarrow> step"
  resp_metadata :: job_metadata
  resp_transcription :: "string option"
  resp_summary :: "string option"
  resp_error :: "string option"

text \<open>\<open>GET /api/status/:processId\<close>; \<open>None\<close> is the 404 answer.\<close>

definition get_status :: "string \<Rightarrow> world \<Rightarrow> status_response option" where
  "get_status pid w =
     (case processingJobs w pid of
        None \<Rightarrow> None
      | Some ref \<Rightarrow>
          (let job = objs w ref
           in Some \<lparr>resp_processId = pid,
                    resp_status = status job,
                    resp_steps = steps job,
                    resp_metadata = metadata job,
                    resp_transcription =
                      (if status job = Completed then transcription (results job) else None),
                    resp_summary =
                      (if status job = Completed then summary (results job) else None),
                    resp_error = (if status job = Error then error job else None)\<rparr>))"

text \<open>The answers of \<open>POST /api/hubspot-attach/:processId\<close>: 404, 400
  (\<open>'Processing not completed'\<close>), 200 and, in the \<open>catch\<close> of the route, 500 with the
  message of the error.\<close>

datatype attach_response = ProcessNotFound | NotCompleted | Attached | AttachFailed string

definition post_hubspot_attach :: "string \<Rightarrow> world \<Rightarrow> attach_response \<times> world" where
  "post_hubspot_attach pid w =
     (case processingJobs w pid of
        None \<Rightarrow> (ProcessNotFound, w)
      | Some job \<Rightarrow>
          if status (objs w job) \<noteq> Completed then (NotCompleted, w)
          else (case attachToHubspot job w of
                  (Inr _, w1) \<Rightarrow> (Attached, w1)
                | (Inl msg, w1) \<Rightarrow> (AttachFailed msg, w1)))"

subsection \<open>Sequences of operations\<close>

text \<open>
  What can happen to the server state after a job was created: further submissions, the
  steps of any pipeline (each method of a processor, or a whole \<open>process()\<close>), status
  queries and post-hoc attach requests, in any order.
\<close>

datatype operation =
    Submit upload_request "nat \<Rightarrow> nat" string
  | UpdateStep nat step_name state payload
  | Convert nat env
  | Transcribe nat string env
  | Summarise nat string env
  | AttachStep nat
  | Cleanup nat env
  | Process nat env
  | StatusQuery string
  | HubspotAttach string

fun apply_operation :: "operation \<Rightarrow> world \<Rightarrow> world" where
  "apply_operation (Submit req rnd now) w = snd (post_process_audio req rnd now w)"
| "apply_operation (UpdateStep this n st d) w = updateStep this n st d w"
| "apply_operation (Convert this e) w = snd (convertAudioToWav this e w)"
| "apply_operation (Transcribe this wavPath e) w = snd (transcribeAudio this wavPath e w)"
| "apply_operation (Summarise this t e) w = snd (generateSummary this t e w)"
| "apply_operation (AttachStep this) w = snd (attachToHubspot this w)"
| "apply_operation (Cleanup this e) w = cleanup this e w"
| "apply_operation (Process this e) w = snd (process this e w)"
| "apply_operation (StatusQuery pid) w = w"
| "apply_operation (HubspotAttach pid) w = snd (post_hubspot_attach pid w)"

fun run :: "operation list \<Rightarrow> world \<Rightarrow> world" where
  "run [] w = w"
| "run (x # xs) w = run xs (apply_operation x w)"

subsection \<open>Names used in the statements\<close>

text \<open>The pipeline step an operation belongs to, if it is one.\<close>

fun processor_of :: "operation \<Rightarrow> nat option" where
  "processor_of (UpdateStep this _ _ _) = Some this"
| "processor_of (Convert this _) = Some this"
| "processor_of (Transcribe this _ _) = Some this"
| "processor_of (Summarise this _ _) = Some this"
| "processor_of (AttachStep this) = Some this"
| "processor_of (Cleanup this _) = Some this"
| "processor_of (Process this _) = Some this"
| "processor_of _ = None"

text \<open>The process id a post-hoc attach request names, if the operation is one.\<close>

fun attach_target :: "operation \<Rightarrow> string option" where
  "attach_target (HubspotAttach pid) = Some pid"
| "attach_target _ = None"

definition pending :: step where
  "pending = \<lparr>step_status = Pending, step_data = NoData\<rparr>"

text \<open>The summarisation tool succeeded: \<open>code === 0 && stdout.trim()\<close>.\<close>

definition summary_ok :: "env \<Rightarrow> bool" where
  "summary_ok e = (ollama e = Close (Some 0) \<and> trim (ollama_stdout e) \<noteq> [])"

text \<open>The message of the rejection and the detail written on the step, per tool.\<close>

definition conversion_failure :: "env \<Rightarrow> string \<times> string" where
  "conversion_failure e =
     (case ffmpeg e of
        Close code \<Rightarrow> (''FFmpeg failed with code '' @ show_code code, ''FFmpeg conversion failed'')
      | SpawnError msg code \<Rightarrow> (msg, ''FFmpeg conversion failed''))"

definition whisper_failure :: "env \<Rightarrow> string \<times> string" where
  "whisper_failure e =
     (case whisper e of
        Close code \<Rightarrow>
          (''Whisper-cli failed with code '' @ show_code code,
           ''Whisper-cli failed with code '' @ show_code code)
      | SpawnError msg code \<Rightarrow>
          (msg, ''Whisper-cli failed with code '' @ show_code (Some code)))"

definition summary_failure :: "env \<Rightarrow> string \<times> string" where
  "summary_failure e =
     (case ollama e of
        Close code \<Rightarrow> (''Ollama failed with code '' @ show_code code, ''Summary generation failed'')
      | SpawnError msg code \<Rightarrow> (msg, ''Summary generation failed''))"

text \<open>The external calls of a run, as they appear in the log.\<close>

definition ffmpeg_call :: "string \<Rightarrow> string \<Rightarrow> effect" where
  "ffmpeg_call file pid =
     Spawn ''ffmpeg''
       [''-i'', file, ''-acodec'', ''pcm_s16le'', ''-ar'', ''16000'', ''-ac'', ''1'',
        wav_path pid, ''-y'']"

definition whisper_call :: "env \<Rightarrow> string \<Rightarrow> effect" where
  "whisper_call e wavPath =
     Spawn ''whisper-cli''
       [''-m'', path_join (path_join (dirname e) ''models'') ''ggml-base.en.bin'',
        ''--output-txt'', ''--no-timestamps'', ''--language'', ''en'', wavPath]"

definition ollama_call :: "string \<Rightarrow> effect list" where
  "ollama_call t = [Spawn ''ollama'' [''run'', ''gemma3:12b''], Stdin (legalPrompt_head @ t)]"

definition transcript_path :: "env \<Rightarrow> job_metadata \<Rightarrow> string" where
  "transcript_path e md = path_join ''transcripts'' (save_name ''transcript'' (transcript_now e) md)"

definition summary_path :: "env \<Rightarrow> job_metadata \<Rightarrow> string" where
  "summary_path e md = path_join ''summaries'' (save_name ''summary'' (summary_now e) md)"

text \<open>The steps of a job whose pipeline completed.\<close>

definition final_steps :: "string \<Rightarrow> bool \<Rightarrow> step_name \<Rightarrow> step" where
  "final_steps pid attach =
     (\<lambda>n. if n = Hubspot then
             (if attach then \<lparr>step_status = Completed, step_data = NoData\<rparr> else pending)
           else if n = Conversion then
             \<lparr>step_status = Completed, step_data = OutputPath (wav_path pid)\<rparr>
           else \<lparr>step_status = Completed, step_data = NoData\<rparr>)"

subsection \<open>A concrete server, request and environment\<close>

definition no_metadata :: job_metadata where
  "no_metadata =
     \<lparr>clientName = None, caseNumber = None, meetingNotes = None, originalFileName = [],
      uploadedAt = [], attachToHubspot_flag = False\<rparr>"

text \<open>The server at start: no processor, no job, no file, nothing called.\<close>

definition world0 :: world where
  "world0 =
     \<lparr>objs = (\<lambda>_. AudioProcessor [] [] no_metadata), next_ref = 0,
      processingJobs = Map.empty, files = Map.empty, log = []\<rparr>"

definition req_acme :: upload_request where
  "req_acme =
     \<lparr>req_file = Some \<lparr>file_path = ''uploads/u1_call.m4a'', file_originalname = ''call.m4a''\<rparr>,
      req_body = \<lparr>body_clientName = Some ''Acme'', body_caseNumber = Some ''123'',
                  body_meetingNotes = None, body_attachToHubspot = None\<rparr>\<rparr>"

text \<open>Every tool succeeds, every file operation succeeds.\<close>

definition env_ok :: env where
  "env_ok =
     \<lparr>dirname = ''/srv/app'', ffmpeg = Close (Some 0), ffmpeg_out = Some ''RIFF'',
      whisper = Close (Some 0), whisper_txt = Some '' HELLO '',
      transcript_now = ''2024-05-01T10:15:30.120Z'', transcript_write = None,
      unlink_txt_ok = True, ollama = Close (Some 0), ollama_stdout = ''SUMMARY TEXT'',
      summary_now = ''2024-05-01T10:15:42.500Z'', summary_write = None,
      unlink_wav_ok = True\<rparr>"

text \<open>The job of \<open>req_acme\<close>, registered by the handler on the empty server.\<close>

definition acme_md :: job_metadata where
  "acme_md =
     \<lparr>clientName = Some ''Acme'', caseNumber = Some ''123'', meetingNotes = None,
      originalFileName = ''call.m4a'', uploadedAt = ''2024-05-01T10:15:00.000Z'',
      attachToHubspot_flag = False\<rparr>"

definition acme_world :: world where
  "acme_world =
     snd (post_process_audio req_acme (\<lambda>i. i) ''2024-05-01T10:15:00.000Z'' world0)"

text \<open>A processor built with \<open>attachToHubspot: true\<close> in its metadata and registered, as
  \<open>new AudioProcessor('job-1', 'uploads/a.m4a', { attachToHubspot: true })\<close> would be.\<close>

definition attach_md :: job_metadata where
  "attach_md = no_metadata\<lparr>attachToHubspot_flag := True\<rparr>"

definition attach_world :: world where
  "attach_world =
     \<lparr>objs = (\<lambda>_. AudioProcessor [] [] no_metadata)
               (0 := AudioProcessor ''job-1'' ''uploads/a.m4a'' attach_md),
      next_ref = 1, processingJobs = [''job-1'' \<mapsto> 0], files = Map.empty, log = []\<rparr>"

text \<open>Variants of \<open>env_ok\<close>.\<close>

definition env_ffmpeg_fails :: env where
  "env_ffmpeg_fails = env_ok\<lparr>ffmpeg := Close (Some 1), ffmpeg_out := None\<rparr>"

definition env_whisper_fails :: env where
  "env_whisper_fails = env_ok\<lparr>whisper := Close (Some 1), whisper_txt := None\<rparr>"

definition env_silent :: env where
  "env_silent =
     env_ok\<lparr>whisper_txt := Some [],
            summary_write := Some ''ENOSPC: no space left on device, write''\<rparr>"

definition env_blank_summary :: env where
  "env_blank_summary = env_ok\<lparr>ollama_stdout := '' ''\<rparr>"

definition env_summary_unsaved :: env where
  "env_summary_unsaved =
     env_ok\<lparr>summary_write := Some ''ENOSPC: no space left on device, write''\<rparr>"

text \<open>A launch that fails: ffmpeg is not installed.\<close>

definition env_no_ffmpeg :: env where
  "env_no_ffmpeg = env_ok\<lparr>ffmpeg := SpawnError ''spawn ffmpeg ENOENT'' (- 2), ffmpeg_out := None\<rparr>"

text \<open>The request of \<open>req_acme\<close> with a form field asking for the attach step.\<close>

definition req_attach :: upload_request where
  "req_attach = req_acme\<lparr>req_body := (req_body req_acme)\<lparr>body_attachToHubspot := Some ''true''\<rparr>\<rparr>"

text \<open>A second job for the same client and case, transcribed within the same second.\<close>

definition env_second :: env where
  "env_second =
     env_ok\<lparr>whisper_txt := Some ''WORLD'', transcript_now := ''2024-05-01T10:15:30.870Z''\<rparr>"

text \<open>Two jobs running at the same time: both submitted, both converted, both transcribed,
  their steps interleaved.\<close>

definition two_jobs :: world where
  "two_jobs =
     run [Submit req_acme (\<lambda>i. i) ''2024-05-01T10:15:00.000Z'',
          Submit req_acme (\<lambda>i. i + 7) ''2024-05-01T10:15:01.000Z'',
          Convert 0 env_ok,
          Convert 1 env_second,
          Transcribe 0 (wav_path (uuidv4 (\<lambda>i. i))) env_ok,
          Transcribe 1 (wav_path (uuidv4 (\<lambda>i. i + 7))) env_second]
       world0"

text \<open>The part of an artifact name that comes from the metadata.\<close>

definition name_suffix :: "job_metadata \<Rightarrow> string" where
  "name_suffix md = name_info (clientName md) @ name_info (caseNumber md)"

section \<open>What each step does to the server state\<close>

text \<open>
  The components of the state after each primitive, each method and each outcome of
  \<open>process\<close>. The claims below are read off these equations.
\<close>

subsection \<open>The primitives\<close>

lemma emit_simps [simp]:
  "objs (emit x w) = objs w" "next_ref (emit x w) = next_ref w"
  "processingJobs (emit x w) = processingJobs w" "files (emit x w) = files w"
  "log (emit x w) = log w @ [x]"
  by (simp_all add: emit_def)

lemma spawn_simps [simp]:
  "objs (spawn c a w) = objs w" "next_ref (spawn c a w) = next_ref w"
  "processingJobs (spawn c a w) = processingJobs w" "files (spawn c a w) = files w"
  "log (spawn c a w) = log w @ [Spawn c a]"
  by (simp_all add: spawn_def)

lemma modify_simps [simp]:
  "objs (modify r f w) = (objs w)(r := f (objs w r))" "next_ref (modify r f w) = next_ref w"
  "processingJobs (modify r f w) = processingJobs w" "files (modify r f w) = files w"
  "log (modify r f w) = log w"
  by (simp_all add: modify_def)

lemma processingJobs_set_simps [simp]:
  "objs (processingJobs_set p r w) = objs w" "next_ref (processingJobs_set p r w) = next_ref w"
  "processingJobs (processingJobs_set p r w) = (processingJobs w)(p \<mapsto> r)"
  "files (processingJobs_set p r w) = files w" "log (processingJobs_set p r w) = log w"
  by (simp_all add: processingJobs_set_def)

lemma updateStep_simps [simp]:
  "objs (updateStep r n st d w) =
     (objs w)(r := (objs w r)\<lparr>steps := (steps (objs w r))(n := \<lparr>step_status = st, step_data = d\<rparr>)\<rparr>)"
  "next_ref (updateStep r n st d w) = next_ref w"
  "processingJobs (updateStep r n st d w) = (processingJobs w)(processId (objs w r) \<mapsto> r)"
  "files (updateStep r n st d w) = files w" "log (updateStep r n st d w) = log w"
  by (simp_all add: updateStep_def Let_def)

lemma unlink_simps [simp]:
  "objs (unlink p ok w) = objs w" "next_ref (unlink p ok w) = next_ref w"
  "processingJobs (unlink p ok w) = processingJobs w"
  "files (unlink p ok w) = (if ok then (files w)(p := None) else files w)"
  "log (unlink p ok w) = log w @ [Unlink p]"
  by (simp_all add: unlink_def Let_def)

lemma tool_output_simps [simp]:
  "objs (tool_output p out w) = objs w" "next_ref (tool_output p out w) = next_ref w"
  "processingJobs (tool_output p out w) = processingJobs w"
  "files (tool_output p out w) = (case out of None \<Rightarrow> files w | Some d \<Rightarrow> (files w)(p \<mapsto> d))"
  "log (tool_output p out w) = log w"
  by (simp_all add: tool_output_def split: option.splits)

lemma readFile_simps [simp]:
  "fst (readFile p w) =
     (case files w p of
        None \<Rightarrow> Inl (''ENOENT: no such file or directory, open '' @ [CHR 0x27] @ p @ [CHR 0x27])
      | Some c \<Rightarrow> Inr c)"
  "objs (snd (readFile p w)) = objs w" "next_ref (snd (readFile p w)) = next_ref w"
  "processingJobs (snd (readFile p w)) = processingJobs w"
  "files (snd (readFile p w)) = files w"
  "log (snd (readFile p w)) = log w @ [ReadFile p]"
  by (simp_all add: readFile_def Let_def split: option.splits)

lemma writeFile_simps [simp]:
  "fst (writeFile p c failure w) = (case failure of None \<Rightarrow> Inr () | Some msg \<Rightarrow> Inl msg)"
  "objs (snd (writeFile p c failure w)) = objs w"
  "next_ref (snd (writeFile p c failure w)) = next_ref w"
  "processingJobs (snd (writeFile p c failure w)) = processingJobs w"
  "files (snd (writeFile p c failure w)) =
     (case failure of None \<Rightarrow> (files w)(p \<mapsto> c) | Some msg \<Rightarrow> files w)"
  "log (snd (writeFile p c failure w)) = log w @ [WriteFile p c]"
  by (simp_all add: writeFile_def Let_def split: option.splits)

subsection \<open>convertAudioToWav\<close>

lemma fst_convertAudioToWav:
  "fst (convertAudioToWav this e w) =
     (case ffmpeg e of
        Close code \<Rightarrow>
          if code = Some 0 then Inr (wav_path (processId (objs w this)))
          else Inl (''FFmpeg failed with code '' @ show_code code)
      | SpawnError msg code \<Rightarrow> Inl msg)"
  by (simp add: convertAudioToWav_def Let_def split: child.splits)

lemma objs_convertAudioToWav:
  "objs (snd (convertAudioToWav this e w)) =
     (objs w)(this :=
        (case ffmpeg e of
           Close code \<Rightarrow>
             if code = Some 0 then
               (objs w this)
                 \<lparr>steps := (steps (objs w this))
                    (Conversion := \<lparr>step_status = Completed,
                                    step_data = OutputPath (wav_path (processId (objs w this)))\<rparr>),
                  results := (results (objs w this))
                    \<lparr>wavFile := Some (wav_path (processId (objs w this)))\<rparr>\<rparr>
             else
               (objs w this)
                 \<lparr>steps := (steps (objs w this))
                    (Conversion := \<lparr>step_status = Error,
                                    step_data = ErrorDetail ''FFmpeg conversion failed''\<rparr>)\<rparr>
         | SpawnError msg code \<Rightarrow>
             (objs w this)
               \<lparr>steps := (steps (objs w this))
                  (Conversion := \<lparr>step_status = Error,
                                  step_data = ErrorDetail ''FFmpeg conversion failed''\<rparr>)\<rparr>))"
  by (simp add: convertAudioToWav_def Let_def split: child.splits)

lemma log_convertAudioToWav:
  "log (snd (convertAudioToWav this e w)) =
     log w @ [Spawn ''ffmpeg''
                [''-i'', audioFile (objs w this), ''-acodec'', ''pcm_s16le'', ''-ar'', ''16000'',
                 ''-ac'', ''1'', wav_path (processId (objs w this)), ''-y'']]"
  by (simp add: convertAudioToWav_def Let_def split: child.splits)

lemma files_convertAudioToWav:
  "files (snd (convertAudioToWav this e w)) =
     (case ffmpeg e of
        Close code \<Rightarrow>
          (case ffmpeg_out e of
             None \<Rightarrow> files w
           | Some d \<Rightarrow> (files w)(wav_path (processId (objs w this)) \<mapsto> d))
      | SpawnError msg code \<Rightarrow> files w)"
  by (simp add: convertAudioToWav_def Let_def split: child.splits option.splits)

lemma registry_convertAudioToWav:
  "processingJobs (snd (convertAudioToWav this e w)) =
     (processingJobs w)(processId (objs w this) \<mapsto> this)"
  by (simp add: convertAudioToWav_def Let_def split: child.splits)

lemma next_ref_convertAudioToWav:
  "next_ref (snd (convertAudioToWav this e w)) = next_ref w"
  by (simp add: convertAudioToWav_def Let_def split: child.splits)

subsection \<open>transcribeAudio\<close>

lemma fst_transcribeAudio_ok:
  assumes "whisper e = Close (Some 0)" "whisper_txt e = Some t" "transcript_write e = None"
  shows "fst (transcribeAudio this wavPath e w) = Inr (trim t)"
  using assms by (simp add: transcribeAudio_def Let_def case_prod_beta)

lemma objs_transcribeAudio_ok:
  assumes "whisper e = Close (Some 0)" "whisper_txt e = Some t" "transcript_write e = None"
  shows "objs (snd (transcribeAudio this wavPath e w)) =
     (objs w)(this := (objs w this)
        \<lparr>steps := (steps (objs w this))
           (Transcription := \<lparr>step_status = Completed, step_data = NoData\<rparr>),
         results := (results (objs w this))\<lparr>transcription := Some (trim t)\<rparr>\<rparr>)"
  using assms by (simp add: transcribeAudio_def Let_def case_prod_beta)

lemma log_transcribeAudio_ok:
  assumes "whisper e = Close (Some 0)" "whisper_txt e = Some t" "transcript_write e = None"
  shows "log (snd (transcribeAudio this wavPath e w)) =
     log w @
     [Spawn ''whisper-cli''
        [''-m'', path_join (path_join (dirname e) ''models'') ''ggml-base.en.bin'',
         ''--output-txt'', ''--no-timestamps'', ''--language'', ''en'', wavPath],
      ReadFile (wavPath @ ''.txt''),
      WriteFile (path_join ''transcripts''
                   (save_name ''transcript'' (transcript_now e) (metadata (objs w this))))
        (trim t),
      Unlink (wavPath @ ''.txt'')]"
  using assms by (simp add: transcribeAudio_def Let_def case_prod_beta)

lemma files_transcribeAudio_ok:
  assumes "whisper e = Close (Some 0)" "whisper_txt e = Some t" "transcript_write e = None"
  shows "files (snd (transcribeAudio this wavPath e w)) =
     (let fs = (files w)
                 (wavPath @ ''.txt'' \<mapsto> t,
                  path_join ''transcripts''
                    (save_name ''transcript'' (transcript_now e) (metadata (objs w this)))
                    \<mapsto> trim t)
      in if unlink_txt_ok e then fs(wavPath @ ''.txt'' := None) else fs)"
  using assms by (simp add: transcribeAudio_def Let_def case_prod_beta)

lemma registry_transcribeAudio:
  "processingJobs (snd (transcribeAudio this wavPath e w)) =
     (processingJobs w)(processId (objs w this) \<mapsto> this)"
  by (simp add: transcribeAudio_def Let_def case_prod_beta split: child.splits option.splits sum.splits)

lemma next_ref_transcribeAudio:
  "next_ref (snd (transcribeAudio this wavPath e w)) = next_ref w"
  by (simp add: transcribeAudio_def Let_def case_prod_beta split: child.splits option.splits sum.splits)

text \<open>The tool itself fails: non-zero exit, signal, or launch error.\<close>

lemma fst_transcribeAudio_tool_fails:
  assumes "whisper e \<noteq> Close (Some 0)"
  shows "fst (transcribeAudio this wavPath e w) = Inl (fst (whisper_failure e))"
  using assms
  by (simp add: transcribeAudio_def whisper_failure_def Let_def case_prod_beta split: child.splits)

lemma objs_transcribeAudio_tool_fails:
  assumes "whisper e \<noteq> Close (Some 0)"
  shows "objs (snd (transcribeAudio this wavPath e w)) =
     (objs w)(this := (objs w this)
        \<lparr>steps := (steps (objs w this))
           (Transcription :=
              \<lparr>step_status = Error, step_data = ErrorDetail (snd (whisper_failure e))\<rparr>)\<rparr>)"
  using assms
  by (simp add: transcribeAudio_def whisper_failure_def Let_def case_prod_beta split: child.splits)

lemma log_transcribeAudio_tool_fails:
  assumes "whisper e \<noteq> Close (Some 0)"
  shows "log (snd (transcribeAudio this wavPath e w)) =
     log w @
     [Spawn ''whisper-cli''
        [''-m'', path_join (path_join (dirname e) ''models'') ''ggml-base.en.bin'',
         ''--output-txt'', ''--no-timestamps'', ''--language'', ''en'', wavPath]]"
  using assms by (simp add: transcribeAudio_def Let_def case_prod_beta split: child.splits)

lemma files_transcribeAudio_tool_fails:
  assumes "whisper e \<noteq> Close (Some 0)"
  shows "files (snd (transcribeAudio this wavPath e w)) =
     (case whisper e of
        Close code \<Rightarrow>
          (case whisper_txt e of None \<Rightarrow> files w | Some t \<Rightarrow> (files w)(wavPath @ ''.txt'' \<mapsto> t))
      | SpawnError msg code \<Rightarrow> files w)"
  using assms by (simp add: transcribeAudio_def Let_def case_prod_beta split: child.splits option.splits)

subsection \<open>generateSummary\<close>

lemma fst_generateSummary:
  "fst (generateSummary this t e w) =
     (if summary_ok e then Inr (trim (ollama_stdout e)) else Inl (fst (summary_failure e)))"
  by (simp add: generateSummary_def summary_ok_def summary_failure_def Let_def case_prod_beta split: child.splits)

lemma objs_generateSummary:
  "objs (snd (generateSummary this t e w)) =
     (objs w)(this :=
        (if summary_ok e then
           (objs w this)
             \<lparr>steps := (steps (objs w this))
                (Summary := \<lparr>step_status = Completed, step_data = NoData\<rparr>),
              results := (results (objs w this))\<lparr>summary := Some (trim (ollama_stdout e))\<rparr>\<rparr>
         else
           (objs w this)
             \<lparr>steps := (steps (objs w this))
                (Summary := \<lparr>step_status = Error,
                             step_data = ErrorDetail (snd (summary_failure e))\<rparr>)\<rparr>))"
  by (simp add: generateSummary_def summary_ok_def summary_failure_def Let_def case_prod_beta split: child.splits)

lemma log_generateSummary:
  "log (snd (generateSummary this t e w)) =
     log w @ [Spawn ''ollama'' [''run'', ''gemma3:12b''], Stdin (legalPrompt_head @ t)] @
     (if summary_ok e then
        [WriteFile (path_join ''summaries''
                      (save_name ''summary'' (summary_now e) (metadata (objs w this))))
           (trim (ollama_stdout e))]
      else [])"
  by (simp add: generateSummary_def summary_ok_def Let_def case_prod_beta split: child.splits)

lemma files_generateSummary:
  "files (snd (generateSummary this t e w)) =
     (if summary_ok e \<and> summary_write e = None then
        (files w)(path_join ''summaries''
                    (save_name ''summary'' (summary_now e) (metadata (objs w this)))
                  \<mapsto> trim (ollama_stdout e))
      else files w)"
  by (simp add: generateSummary_def summary_ok_def Let_def case_prod_beta split: child.splits option.splits)

lemma registry_generateSummary:
  "processingJobs (snd (generateSummary this t e w)) =
     (processingJobs w)(processId (objs w this) \<mapsto> this)"
  by (simp add: generateSummary_def Let_def case_prod_beta split: child.splits)

lemma next_ref_generateSummary:
  "next_ref (snd (generateSummary this t e w)) = next_ref w"
  by (simp add: generateSummary_def Let_def case_prod_beta split: child.splits)

subsection \<open>attachToHubspot\<close>

lemma fst_attachToHubspot:
  "fst (attachToHubspot this w) = Inr (True, ''Attached to HubSpot successfully'')"
  by (simp add: attachToHubspot_def Let_def)

lemma objs_attachToHubspot:
  "objs (snd (attachToHubspot this w)) =
     (objs w)(this := (objs w this)
        \<lparr>steps := (steps (objs w this))
           (Hubspot := \<lparr>step_status = Completed, step_data = NoData\<rparr>)\<rparr>)"
  by (simp add: attachToHubspot_def Let_def)

lemma world_attachToHubspot:
  "log (snd (attachToHubspot this w)) = log w @ [HubspotApi]"
  "files (snd (attachToHubspot this w)) = files w"
  "next_ref (snd (attachToHubspot this w)) = next_ref w"
  "processingJobs (snd (attachToHubspot this w)) =
     (processingJobs w)(processId (objs w this) \<mapsto> this)"
  by (simp_all add: attachToHubspot_def Let_def)

subsection \<open>cleanup and the catch block\<close>

lemma world_cleanup:
  "objs (cleanup this e w) = objs w"
  "next_ref (cleanup this e w) = next_ref w"
  "processingJobs (cleanup this e w) = processingJobs w"
  by (simp_all add: cleanup_def split: option.splits)

lemma world_process_catch:
  "fst (process_catch this msg w) = Inl msg"
  "objs (snd (process_catch this msg w)) =
     (objs w)(this := (objs w this)\<lparr>status := Error, error := Some msg\<rparr>)"
  "log (snd (process_catch this msg w)) = log w"
  "files (snd (process_catch this msg w)) = files w"
  "next_ref (snd (process_catch this msg w)) = next_ref w"
  "processingJobs (snd (process_catch this msg w)) =
     (processingJobs w)(processId (objs w this) \<mapsto> this)"
  by (simp_all add: process_catch_def Let_def)

subsection \<open>The outcomes of process\<close>

lemmas convert_world = fst_convertAudioToWav objs_convertAudioToWav log_convertAudioToWav
  files_convertAudioToWav registry_convertAudioToWav next_ref_convertAudioToWav
lemmas summary_world = fst_generateSummary objs_generateSummary log_generateSummary
  files_generateSummary registry_generateSummary next_ref_generateSummary
lemmas attach_world = fst_attachToHubspot objs_attachToHubspot world_attachToHubspot

lemma process_conversion_fails:
  assumes fresh: "objs w this = AudioProcessor pid file md"
    and fail: "ffmpeg e \<noteq> Close (Some 0)"
  shows "fst (process this e w) = Inl (fst (conversion_failure e))"
    and "objs (snd (process this e w)) this =
       (AudioProcessor pid file md)
         \<lparr>status := Error, error := Some (fst (conversion_failure e)),
          steps := (\<lambda>_. pending)
            (Conversion := \<lparr>step_status = Error, step_data = ErrorDetail (snd (conversion_failure e))\<rparr>)\<rparr>"
    and "log (snd (process this e w)) = log w @ [ffmpeg_call file pid]"
proof -
  show "fst (process this e w) = Inl (fst (conversion_failure e))"
    using assms by (cases "ffmpeg e")
      (simp_all add: process_def Let_def case_prod_beta convert_world world_process_catch
         conversion_failure_def)
  show "objs (snd (process this e w)) this =
       (AudioProcessor pid file md)
         \<lparr>status := Error, error := Some (fst (conversion_failure e)),
          steps := (\<lambda>_. pending)
            (Conversion := \<lparr>step_status = Error, step_data = ErrorDetail (snd (conversion_failure e))\<rparr>)\<rparr>"
    using assms by (cases "ffmpeg e")
      (simp_all add: process_def Let_def case_prod_beta convert_world world_process_catch
         conversion_failure_def AudioProcessor_def pending_def)
  show "log (snd (process this e w)) = log w @ [ffmpeg_call file pid]"
    using assms by (cases "ffmpeg e")
      (simp_all add: process_def Let_def case_prod_beta convert_world world_process_catch
         ffmpeg_call_def AudioProcessor_def)
qed

lemmas transcribe_fail_world = fst_transcribeAudio_tool_fails objs_transcribeAudio_tool_fails
  log_transcribeAudio_tool_fails files_transcribeAudio_tool_fails
lemmas transcribe_ok_world = fst_transcribeAudio_ok objs_transcribeAudio_ok
  log_transcribeAudio_ok files_transcribeAudio_ok

lemma process_transcription_fails:
  assumes fresh: "objs w this = AudioProcessor pid file md"
    and conv: "ffmpeg e = Close (Some 0)"
    and fail: "whisper e \<noteq> Close (Some 0)"
  shows "fst (process this e w) = Inl (fst (whisper_failure e))"
    and "objs (snd (process this e w)) this =
       (AudioProcessor pid file md)
         \<lparr>status := Error, error := Some (fst (whisper_failure e)),
          steps := (\<lambda>_. pending)
            (Conversion := \<lparr>step_status = Completed, step_data = OutputPath (wav_path pid)\<rparr>,
             Transcription := \<lparr>step_status = Error, step_data = ErrorDetail (snd (whisper_failure e))\<rparr>),
          results := \<lparr>wavFile = Some (wav_path pid), transcription = None, summary = None\<rparr>\<rparr>"
    and "log (snd (process this e w)) = log w @ [ffmpeg_call file pid, whisper_call e (wav_path pid)]"
    and "files (snd (process this e w)) =
       files (tool_output (wav_path pid @ ''.txt'')
                (case whisper e of Close code \<Rightarrow> whisper_txt e | SpawnError msg code \<Rightarrow> None)
                (tool_output (wav_path pid) (ffmpeg_out e) w))"
proof -
  note tf = transcribe_fail_world [OF fail] registry_transcribeAudio next_ref_transcribeAudio
  show "fst (process this e w) = Inl (fst (whisper_failure e))"
    using fresh conv
    by (simp add: process_def Let_def case_prod_beta convert_world tf world_process_catch)
  show "objs (snd (process this e w)) this =
       (AudioProcessor pid file md)
         \<lparr>status := Error, error := Some (fst (whisper_failure e)),
          steps := (\<lambda>_. pending)
            (Conversion := \<lparr>step_status = Completed, step_data = OutputPath (wav_path pid)\<rparr>,
             Transcription := \<lparr>step_status = Error, step_data = ErrorDetail (snd (whisper_failure e))\<rparr>),
          results := \<lparr>wavFile = Some (wav_path pid), transcription = None, summary = None\<rparr>\<rparr>"
    using fresh conv
    by (simp add: process_def Let_def case_prod_beta convert_world tf world_process_catch
         AudioProcessor_def pending_def)
  show "log (snd (process this e w)) = log w @ [ffmpeg_call file pid, whisper_call e (wav_path pid)]"
    using fresh conv
    by (simp add: process_def Let_def case_prod_beta convert_world tf world_process_catch
         ffmpeg_call_def whisper_call_def AudioProcessor_def)
  show "files (snd (process this e w)) =
       files (tool_output (wav_path pid @ ''.txt'')
                (case whisper e of Close code \<Rightarrow> whisper_txt e | SpawnError msg code \<Rightarrow> None)
                (tool_output (wav_path pid) (ffmpeg_out e) w))"
    using fresh conv
    by (simp add: process_def Let_def case_prod_beta convert_world tf world_process_catch
         AudioProcessor_def split: child.splits option.splits)
qed

lemma artifact_paths_differ:
  "transcript_path e md \<noteq> wav_path pid"
  "transcript_path e md \<noteq> wav_path pid @ ''.txt''"
  "summary_path e md \<noteq> wav_path pid"
  "summary_path e md \<noteq> wav_path pid @ ''.txt''"
  "transcript_path e md \<noteq> summary_path e' md'"
  "wav_path pid \<noteq> wav_path pid @ ''.txt''"
  by (simp_all add: transcript_path_def summary_path_def wav_path_def path_join_def save_name_def)

lemma process_summary_fails:
  assumes fresh: "objs w this = AudioProcessor pid file md"
    and conv: "ffmpeg e = Close (Some 0)"
    and whisp: "whisper e = Close (Some 0)" "whisper_txt e = Some t" "transcript_write e = None"
    and fail: "\<not> summary_ok e"
  shows "fst (process this e w) = Inl (fst (summary_failure e))"
    and "objs (snd (process this e w)) this =
       (AudioProcessor pid file md)
         \<lparr>status := Error, error := Some (fst (summary_failure e)),
          steps := (\<lambda>_. pending)
            (Conversion := \<lparr>step_status = Completed, step_data = OutputPath (wav_path pid)\<rparr>,
             Transcription := \<lparr>step_status = Completed, step_data = NoData\<rparr>,
             Summary := \<lparr>step_status = Error, step_data = ErrorDetail (snd (summary_failure e))\<rparr>),
          results := \<lparr>wavFile = Some (wav_path pid), transcription = Some (trim t), summary = None\<rparr>\<rparr>"
    and "log (snd (process this e w)) =
       log w @ [ffmpeg_call file pid, whisper_call e (wav_path pid),
                ReadFile (wav_path pid @ ''.txt''), WriteFile (transcript_path e md) (trim t),
                Unlink (wav_path pid @ ''.txt'')] @ ollama_call (trim t)"
proof -
  note tw = transcribe_ok_world [OF whisp] registry_transcribeAudio next_ref_transcribeAudio
  show "fst (process this e w) = Inl (fst (summary_failure e))"
    using fresh conv fail
    by (simp add: process_def Let_def case_prod_beta convert_world tw summary_world
          world_process_catch)
  show "objs (snd (process this e w)) this =
       (AudioProcessor pid file md)
         \<lparr>status := Error, error := Some (fst (summary_failure e)),
          steps := (\<lambda>_. pending)
            (Conversion := \<lparr>step_status = Completed, step_data = OutputPath (wav_path pid)\<rparr>,
             Transcription := \<lparr>step_status = Completed, step_data = NoData\<rparr>,
             Summary := \<lparr>step_status = Error, step_data = ErrorDetail (snd (summary_failure e))\<rparr>),
          results := \<lparr>wavFile = Some (wav_path pid), transcription = Some (trim t), summary = None\<rparr>\<rparr>"
    using fresh conv fail
    by (simp add: process_def Let_def case_prod_beta convert_world tw summary_world
          world_process_catch AudioProcessor_def pending_def)
  show "log (snd (process this e w)) =
       log w @ [ffmpeg_call file pid, whisper_call e (wav_path pid),
                ReadFile (wav_path pid @ ''.txt''), WriteFile (transcript_path e md) (trim t),
                Unlink (wav_path pid @ ''.txt'')] @ ollama_call (trim t)"
    using fresh conv fail
    by (simp add: process_def Let_def case_prod_beta convert_world tw summary_world
          world_process_catch AudioProcessor_def ffmpeg_call_def whisper_call_def
          transcript_path_def ollama_call_def)
qed

lemma process_completes:
  assumes fresh: "objs w this = AudioProcessor pid file md"
    and conv: "ffmpeg e = Close (Some 0)"
    and whisp: "whisper e = Close (Some 0)" "whisper_txt e = Some t" "transcript_write e = None"
    and summ: "summary_ok e"
  shows "fst (process this e w) = Inr (trim t, trim (ollama_stdout e), md)"
    and "objs (snd (process this e w)) this =
       (AudioProcessor pid file md)
         \<lparr>status := Completed,
          steps := final_steps pid (attachToHubspot_flag md),
          results := \<lparr>wavFile = Some (wav_path pid), transcription = Some (trim t),
                      summary = Some (trim (ollama_stdout e))\<rparr>\<rparr>"
    and "log (snd (process this e w)) =
       log w @ [ffmpeg_call file pid, whisper_call e (wav_path pid),
                ReadFile (wav_path pid @ ''.txt''), WriteFile (transcript_path e md) (trim t),
                Unlink (wav_path pid @ ''.txt'')] @ ollama_call (trim t) @
               [WriteFile (summary_path e md) (trim (ollama_stdout e))] @
               (if attachToHubspot_flag md then [HubspotApi] else []) @
               [Unlink (wav_path pid)]"
    and "files (snd (process this e w)) (transcript_path e md) = Some (trim t)"
    and "files (snd (process this e w)) (summary_path e md) =
           (if summary_write e = None then Some (trim (ollama_stdout e))
            else files w (summary_path e md))"
    and "files (snd (process this e w)) (wav_path pid) =
           (if unlink_wav_ok e then None
            else case ffmpeg_out e of None \<Rightarrow> files w (wav_path pid) | Some d \<Rightarrow> Some d)"
proof -
  note tw = transcribe_ok_world [OF whisp] registry_transcribeAudio next_ref_transcribeAudio
  note sw = process_def Let_def case_prod_beta convert_world tw summary_world attach_world
    world_process_catch world_cleanup
  have wav: "wavFile (results (objs w1 this)) = Some (wav_path pid) \<Longrightarrow> wav_path pid \<noteq> []
     \<Longrightarrow> log (cleanup this e w1) = log w1 @ [Unlink (wav_path pid)]
       \<and> files (cleanup this e w1) = (if unlink_wav_ok e then (files w1)(wav_path pid := None) else files w1)" for w1
    by (simp add: cleanup_def)
  have ne: "wav_path pid \<noteq> []" by (simp add: wav_path_def path_join_def)
  show "fst (process this e w) = Inr (trim t, trim (ollama_stdout e), md)"
    using fresh conv summ
    by (cases "attachToHubspot_flag md") (simp_all add: sw AudioProcessor_def)
  show "objs (snd (process this e w)) this =
       (AudioProcessor pid file md)
         \<lparr>status := Completed,
          steps := final_steps pid (attachToHubspot_flag md),
          results := \<lparr>wavFile = Some (wav_path pid), transcription = Some (trim t),
                      summary = Some (trim (ollama_stdout e))\<rparr>\<rparr>"
    using fresh conv summ
    by (cases "attachToHubspot_flag md")
       (auto simp add: sw AudioProcessor_def final_steps_def pending_def fun_eq_iff
          intro: step_name.exhaust)
  show "log (snd (process this e w)) =
       log w @ [ffmpeg_call file pid, whisper_call e (wav_path pid),
                ReadFile (wav_path pid @ ''.txt''), WriteFile (transcript_path e md) (trim t),
                Unlink (wav_path pid @ ''.txt'')] @ ollama_call (trim t) @
               [WriteFile (summary_path e md) (trim (ollama_stdout e))] @
               (if attachToHubspot_flag md then [HubspotApi] else []) @
               [Unlink (wav_path pid)]"
    using fresh conv summ ne
    by (cases "attachToHubspot_flag md")
       (simp_all add: sw AudioProcessor_def cleanup_def ffmpeg_call_def whisper_call_def
          transcript_path_def summary_path_def ollama_call_def)
  show "files (snd (process this e w)) (transcript_path e md) = Some (trim t)"
    using fresh conv summ ne
    by (cases "attachToHubspot_flag md")
       (simp_all add: sw AudioProcessor_def cleanup_def transcript_path_def [symmetric]
          summary_path_def [symmetric] artifact_paths_differ artifact_paths_differ [symmetric]
          split: option.splits)
  show "files (snd (process this e w)) (summary_path e md) =
           (if summary_write e = None then Some (trim (ollama_stdout e))
            else files w (summary_path e md))"
    using fresh conv summ ne
    by (cases "attachToHubspot_flag md")
       (simp_all add: sw AudioProcessor_def cleanup_def transcript_path_def [symmetric]
          summary_path_def [symmetric] artifact_paths_differ artifact_paths_differ [symmetric]
          split: option.splits)
  show "files (snd (process this e w)) (wav_path pid) =
           (if unlink_wav_ok e then None
            else case ffmpeg_out e of None \<Rightarrow> files w (wav_path pid) | Some d \<Rightarrow> Some d)"
    using fresh conv summ ne
    by (cases "attachToHubspot_flag md")
       (simp_all add: sw AudioProcessor_def cleanup_def transcript_path_def [symmetric]
          summary_path_def [symmetric] artifact_paths_differ artifact_paths_differ [symmetric]
          split: option.splits)
qed

subsection \<open>Frames\<close>

lemma convert_frame: "r \<noteq> this \<Longrightarrow> objs (snd (convertAudioToWav r e w)) this = objs w this"
  by (simp add: objs_convertAudioToWav)

lemma transcribe_frame: "r \<noteq> this \<Longrightarrow> objs (snd (transcribeAudio r p e w)) this = objs w this"
  by (simp add: transcribeAudio_def Let_def case_prod_beta split: child.splits option.splits sum.splits)

lemma summary_frame: "r \<noteq> this \<Longrightarrow> objs (snd (generateSummary r t e w)) this = objs w this"
  by (simp add: objs_generateSummary)

lemma attach_frame: "r \<noteq> this \<Longrightarrow> objs (snd (attachToHubspot r w)) this = objs w this"
  by (simp add: objs_attachToHubspot)

lemma process_catch_frame: "r \<noteq> this \<Longrightarrow> objs (snd (process_catch r m w)) this = objs w this"
  by (simp add: world_process_catch)

lemma process_frame: "r \<noteq> this \<Longrightarrow> objs (snd (process r e w)) this = objs w this"
  by (simp add: process_def Let_def case_prod_beta convert_frame transcribe_frame summary_frame
        attach_frame world_cleanup process_catch_frame split: sum.splits)

lemma next_ref_process: "next_ref (snd (process r e w)) = next_ref w"
  by (simp add: process_def Let_def case_prod_beta next_ref_convertAudioToWav
        next_ref_transcribeAudio next_ref_generateSummary world_attachToHubspot world_cleanup
        world_process_catch split: sum.splits)

subsection \<open>The routes and sequences of operations\<close>

text \<open>The registry only grows.\<close>

lemma registry_process:
  "processingJobs w pid \<noteq> None \<Longrightarrow> processingJobs (snd (process r e w)) pid \<noteq> None"
  by (simp add: process_def Let_def case_prod_beta registry_convertAudioToWav
        registry_transcribeAudio registry_generateSummary world_attachToHubspot world_cleanup
        world_process_catch split: sum.splits)

lemma world_post_process_audio:
  assumes "req_file req = Some f"
  shows "fst (post_process_audio req rnd now w) = (ProcessingStarted (uuidv4 rnd), Some (next_ref w))"
    and "objs (snd (post_process_audio req rnd now w)) =
           (objs w)(next_ref w := AudioProcessor (uuidv4 rnd) (file_path f) (request_metadata req f now))"
    and "next_ref (snd (post_process_audio req rnd now w)) = Suc (next_ref w)"
    and "processingJobs (snd (post_process_audio req rnd now w)) =
           (processingJobs w)(uuidv4 rnd \<mapsto> next_ref w)"
    and "files (snd (post_process_audio req rnd now w)) = files w"
    and "log (snd (post_process_audio req rnd now w)) = log w"
  using assms by (simp_all add: post_process_audio_def Let_def)

lemma post_process_audio_no_file:
  "req_file req = None \<Longrightarrow> post_process_audio req rnd now w = ((NoAudioFile, None), w)"
  by (simp add: post_process_audio_def)

lemma submit_and_process_eq:
  assumes "req_file req = Some f"
  shows "snd (submit_and_process req rnd now e w) =
           snd (process (next_ref w) e (snd (post_process_audio req rnd now w)))"
  using world_post_process_audio(1) [OF assms, of rnd now w]
  by (cases "post_process_audio req rnd now w") (simp add: submit_and_process_def)

lemma world_post_hubspot_attach:
  "processingJobs w pid = None \<Longrightarrow> post_hubspot_attach pid w = (ProcessNotFound, w)"
  "processingJobs w pid = Some job \<Longrightarrow> status (objs w job) \<noteq> Completed
     \<Longrightarrow> post_hubspot_attach pid w = (NotCompleted, w)"
  "processingJobs w pid = Some job \<Longrightarrow> status (objs w job) = Completed
     \<Longrightarrow> post_hubspot_attach pid w = (Attached, snd (attachToHubspot job w))"
  by (simp_all add: post_hubspot_attach_def case_prod_beta fst_attachToHubspot
        split: option.splits sum.splits)

lemma apply_operation_registry:
  "processingJobs w pid \<noteq> None \<Longrightarrow> processingJobs (apply_operation x w) pid \<noteq> None"
proof (cases x)
  case (Submit req rnd now)
  then show "processingJobs w pid \<noteq> None \<Longrightarrow> ?thesis"
    by (cases "req_file req")
       (simp_all add: post_process_audio_no_file world_post_process_audio)
next
  case (HubspotAttach p)
  then show "processingJobs w pid \<noteq> None \<Longrightarrow> ?thesis"
    by (simp add: post_hubspot_attach_def case_prod_beta world_attachToHubspot
          split: option.splits sum.splits)
qed (simp_all add: registry_convertAudioToWav registry_transcribeAudio registry_generateSummary
       world_attachToHubspot world_cleanup registry_process)

lemma run_registry:
  "processingJobs w pid \<noteq> None \<Longrightarrow> processingJobs (run xs w) pid \<noteq> None"
proof (induction xs arbitrary: w)
  case Nil
  then show ?case by simp
next
  case (Cons x xs)
  from Cons.prems have "processingJobs (apply_operation x w) pid \<noteq> None"
    by (rule apply_operation_registry)
  then have "processingJobs (run xs (apply_operation x w)) pid \<noteq> None"
    by (rule Cons.IH)
  then show ?case by simp
qed

text \<open>A job that is not completed is out of reach of every operation that is not a step of
  its own pipeline.\<close>

lemma apply_operation_frame:
  assumes "processor_of x \<noteq> Some this" "this < next_ref w" "status (objs w this) \<noteq> Completed"
  shows "objs (apply_operation x w) this = objs w this \<and> this < next_ref (apply_operation x w)"
proof (cases x)
  case (Submit req rnd now)
  with assms show ?thesis
    by (cases "req_file req")
       (simp_all add: post_process_audio_no_file world_post_process_audio)
next
  case (HubspotAttach p)
  show ?thesis
  proof (cases "processingJobs w p")
    case None
    with HubspotAttach assms show ?thesis by (simp add: world_post_hubspot_attach)
  next
    case (Some job)
    show ?thesis
    proof (cases "status (objs w job) = Completed")
      case True
      with assms have "job \<noteq> this" by auto
      with HubspotAttach Some True assms show ?thesis
        by (simp add: world_post_hubspot_attach attach_frame world_attachToHubspot)
    next
      case False
      with HubspotAttach Some assms show ?thesis by (simp add: world_post_hubspot_attach)
    qed
  qed
qed (use assms in \<open>simp_all add: convert_frame transcribe_frame summary_frame attach_frame
       world_cleanup process_frame next_ref_convertAudioToWav next_ref_transcribeAudio
       next_ref_generateSummary world_attachToHubspot next_ref_process\<close>)

lemma run_frame:
  assumes "\<forall>x \<in> set xs. processor_of x \<noteq> Some this" "this < next_ref w"
    "status (objs w this) \<noteq> Completed"
  shows "objs (run xs w) this = objs w this"
  using assms
proof (induction xs arbitrary: w)
  case Nil
  then show ?case by simp
next
  case (Cons x xs)
  then have step: "objs (apply_operation x w) this = objs w this \<and> this < next_ref (apply_operation x w)"
    using apply_operation_frame [of x this w] by simp
  with Cons show ?case by simp
qed

subsection \<open>The registry entry of a running job\<close>

lemma processId_convertAudioToWav:
  "processId (objs (snd (convertAudioToWav r e w)) x) = processId (objs w x)"
  by (simp add: objs_convertAudioToWav split: child.splits)

lemma processId_transcribeAudio:
  "processId (objs (snd (transcribeAudio r p e w)) x) = processId (objs w x)"
  by (simp add: transcribeAudio_def Let_def case_prod_beta split: child.splits option.splits sum.splits)

lemma processId_generateSummary:
  "processId (objs (snd (generateSummary r t e w)) x) = processId (objs w x)"
  by (simp add: objs_generateSummary)

lemma processId_attachToHubspot:
  "processId (objs (snd (attachToHubspot r w)) x) = processId (objs w x)"
  by (simp add: objs_attachToHubspot)

lemma registry_process_this:
  assumes "objs w this = AudioProcessor pid file md"
  shows "processingJobs (snd (process this e w)) pid = Some this"
  using assms
  by (simp add: process_def Let_def case_prod_beta world_process_catch world_cleanup
        world_attachToHubspot processId_convertAudioToWav processId_transcribeAudio
        processId_generateSummary processId_attachToHubspot AudioProcessor_def
        split: sum.splits)

subsection \<open>Who can reach a job\<close>

text \<open>Every registry entry after a step is the entry the step wrote for its own
  processor, or was there before.\<close>

lemma registry_updateStep_cases:
  "processingJobs (updateStep r n st d w) p = Some x
     \<Longrightarrow> (p = processId (objs w r) \<and> x = r) \<or> processingJobs w p = Some x"
  by (simp split: if_splits)

lemma registry_convertAudioToWav_cases:
  "processingJobs (snd (convertAudioToWav r e w)) p = Some x
     \<Longrightarrow> (p = processId (objs w r) \<and> x = r) \<or> processingJobs w p = Some x"
  by (simp add: registry_convertAudioToWav split: if_splits)

lemma registry_transcribeAudio_cases:
  "processingJobs (snd (transcribeAudio r wavPath e w)) p = Some x
     \<Longrightarrow> (p = processId (objs w r) \<and> x = r) \<or> processingJobs w p = Some x"
  by (simp add: registry_transcribeAudio split: if_splits)

lemma registry_generateSummary_cases:
  "processingJobs (snd (generateSummary r t e w)) p = Some x
     \<Longrightarrow> (p = processId (objs w r) \<and> x = r) \<or> processingJobs w p = Some x"
  by (simp add: registry_generateSummary split: if_splits)

lemma registry_attachToHubspot_cases:
  "processingJobs (snd (attachToHubspot r w)) p = Some x
     \<Longrightarrow> (p = processId (objs w r) \<and> x = r) \<or> processingJobs w p = Some x"
  by (simp add: world_attachToHubspot split: if_splits)

lemma registry_process_cases:
  "processingJobs (snd (process r e w)) p = Some x
     \<Longrightarrow> (p = processId (objs w r) \<and> x = r) \<or> processingJobs w p = Some x"
  by (simp add: process_def Let_def case_prod_beta world_process_catch world_cleanup
        world_attachToHubspot registry_convertAudioToWav registry_transcribeAudio
        registry_generateSummary processId_convertAudioToWav processId_transcribeAudio
        processId_generateSummary processId_attachToHubspot
        split: sum.splits if_splits)

text \<open>
  A job known to the registry under its own id only is out of reach of every operation
  that is neither a step of its pipeline nor a post-hoc attach request for its id.
\<close>

lemma apply_operation_keeps:
  assumes step: "processor_of x \<noteq> Some this"
    and att: "attach_target x \<noteq> Some pid"
    and alloc: "this < next_ref w"
    and own: "\<forall>p. processingJobs w p = Some this \<longrightarrow> p = pid"
  shows "objs (apply_operation x w) this = objs w this
       \<and> this < next_ref (apply_operation x w)
       \<and> (\<forall>p. processingJobs (apply_operation x w) p = Some this \<longrightarrow> p = pid)"
proof (cases x)
  case (Submit req rnd now)
  with alloc own show ?thesis
    by (cases "req_file req")
       (auto simp add: post_process_audio_no_file world_post_process_audio split: if_splits)
next
  case (UpdateStep r n st d)
  with step have "r \<noteq> this" by simp
  with UpdateStep alloc own show ?thesis
    using registry_updateStep_cases [of r n st d w] by auto
next
  case (Convert r e)
  with step have "r \<noteq> this" by simp
  with Convert alloc own show ?thesis
    using registry_convertAudioToWav_cases [of r e w]
    by (auto simp add: convert_frame next_ref_convertAudioToWav)
next
  case (Transcribe r wavPath e)
  with step have "r \<noteq> this" by simp
  with Transcribe alloc own show ?thesis
    using registry_transcribeAudio_cases [of r wavPath e w]
    by (auto simp add: transcribe_frame next_ref_transcribeAudio)
next
  case (Summarise r t e)
  with step have "r \<noteq> this" by simp
  with Summarise alloc own show ?thesis
    using registry_generateSummary_cases [of r t e w]
    by (auto simp add: summary_frame next_ref_generateSummary)
next
  case (AttachStep r)
  with step have "r \<noteq> this" by simp
  with AttachStep alloc own show ?thesis
    using registry_attachToHubspot_cases [of r w]
    by (auto simp add: attach_frame world_attachToHubspot)
next
  case (Cleanup r e)
  with alloc own show ?thesis by (simp add: world_cleanup)
next
  case (Process r e)
  with step have "r \<noteq> this" by simp
  with Process alloc own show ?thesis
    using registry_process_cases [of r e w]
    by (auto simp add: process_frame next_ref_process)
next
  case (StatusQuery p)
  with alloc own show ?thesis by simp
next
  case (HubspotAttach p)
  with att have ne: "p \<noteq> pid" by simp
  show ?thesis
  proof (cases "processingJobs w p")
    case None
    with HubspotAttach alloc own show ?thesis by (simp add: world_post_hubspot_attach)
  next
    case (Some job)
    with own ne have other: "job \<noteq> this" by auto
    show ?thesis
    proof (cases "status (objs w job) = Completed")
      case True
      with HubspotAttach Some other alloc own show ?thesis
        using registry_attachToHubspot_cases [of job w]
        by (auto simp add: world_post_hubspot_attach attach_frame world_attachToHubspot)
    next
      case False
      with HubspotAttach Some alloc own show ?thesis by (simp add: world_post_hubspot_attach)
    qed
  qed
qed

lemma run_keeps:
  assumes "\<forall>x \<in> set xs. processor_of x \<noteq> Some this \<and> attach_target x \<noteq> Some pid"
    and "this < next_ref w"
    and "\<forall>p. processingJobs w p = Some this \<longrightarrow> p = pid"
  shows "objs (run xs w) this = objs w this"
  using assms
proof (induction xs arbitrary: w)
  case Nil
  then show ?case by simp
next
  case (Cons x xs)
  then have k: "objs (apply_operation x w) this = objs w this
       \<and> this < next_ref (apply_operation x w)
       \<and> (\<forall>p. processingJobs (apply_operation x w) p = Some this \<longrightarrow> p = pid)"
    using apply_operation_keeps [of x this pid w] by simp
  have "objs (run xs (apply_operation x w)) this = objs (apply_operation x w) this"
    using Cons.prems(1) k by (intro Cons.IH) simp_all
  with k show ?case by simp
qed

subsection \<open>The concrete server\<close>

lemma world0_simps:
  "objs world0 = (\<lambda>_. AudioProcessor [] [] no_metadata)" "next_ref world0 = 0"
  "processingJobs world0 = Map.empty" "files world0 = Map.empty" "log world0 = []"
  by (simp_all add: world0_def)

lemma acme_file:
  "req_file req_acme = Some \<lparr>file_path = ''uploads/u1_call.m4a'', file_originalname = ''call.m4a''\<rparr>"
  by (simp add: req_acme_def)

lemma trim_hello:
  "trim '' HELLO '' = ''HELLO''" "trim ''SUMMARY TEXT'' = ''SUMMARY TEXT''" "trim '' '' = []"
  "trim [] = []"
  by (simp_all add: trim_def is_space_def)

lemma uuid_id: "uuidv4 (\<lambda>i. i) = ''01234567-89ab-4cde-b012-3456789abcde''"
  by code_simp

lemma uuid_shift: "uuidv4 (\<lambda>i. i + 7) = ''789abcde-f012-4345-a789-abcdef012345''"
  by code_simp

lemma acme_paths:
  "transcript_now e = ''2024-05-01T10:15:30.120Z'' \<Longrightarrow>
     transcript_path e acme_md = ''transcripts/transcript_2024-05-01T10-15-30_Acme_123.txt''"
  "transcript_now e = ''2024-05-01T10:15:30.870Z'' \<Longrightarrow>
     transcript_path e acme_md = ''transcripts/transcript_2024-05-01T10-15-30_Acme_123.txt''"
  "summary_now e = ''2024-05-01T10:15:42.500Z'' \<Longrightarrow>
     summary_path e acme_md = ''summaries/summary_2024-05-01T10-15-42_Acme_123.txt''"
  by (simp_all add: transcript_path_def summary_path_def acme_md_def path_join_def
        save_name_def timestamp_of_def name_info_def sanitize_def is_alnum_def)

lemma env_ok_simps:
  "dirname env_ok = ''/srv/app''" "ffmpeg env_ok = Close (Some 0)" "ffmpeg_out env_ok = Some ''RIFF''"
  "whisper env_ok = Close (Some 0)" "whisper_txt env_ok = Some '' HELLO ''"
  "transcript_now env_ok = ''2024-05-01T10:15:30.120Z''" "transcript_write env_ok = None"
  "unlink_txt_ok env_ok" "ollama env_ok = Close (Some 0)" "ollama_stdout env_ok = ''SUMMARY TEXT''"
  "summary_now env_ok = ''2024-05-01T10:15:42.500Z''" "summary_write env_ok = None"
  "unlink_wav_ok env_ok"
  by (simp_all add: env_ok_def)

lemma summary_ok_env_ok: "summary_ok env_ok"
  by (simp add: summary_ok_def env_ok_simps trim_hello)

lemma acme_md_eq:
  "request_metadata req_acme \<lparr>file_path = ''uploads/u1_call.m4a'', file_originalname = ''call.m4a''\<rparr>
     ''2024-05-01T10:15:00.000Z'' = acme_md"
  by (simp add: request_metadata_def req_acme_def acme_md_def)

lemma acme_world_simps:
  "objs acme_world 0 = AudioProcessor (uuidv4 (\<lambda>i. i)) ''uploads/u1_call.m4a'' acme_md"
  "next_ref acme_world = 1"
  "processingJobs acme_world = [uuidv4 (\<lambda>i. i) \<mapsto> 0]"
  "files acme_world = Map.empty"
  "log acme_world = []"
  by (simp_all add: acme_world_def world_post_process_audio [OF acme_file] world0_simps acme_md_eq)

lemma acme_md_simps:
  "clientName acme_md = Some ''Acme''" "caseNumber acme_md = Some ''123''"
  "\<not> attachToHubspot_flag acme_md"
  by (simp_all add: acme_md_def)

lemma attach_world_simps:
  "objs attach_world 0 = AudioProcessor ''job-1'' ''uploads/a.m4a'' attach_md"
  "next_ref attach_world = 1"
  "processingJobs attach_world = [''job-1'' \<mapsto> 0]"
  "files attach_world = Map.empty"
  "log attach_world = []"
  "attachToHubspot_flag attach_md"
  by (simp_all add: attach_world_def attach_md_def)

section \<open>The claims\<close>

subsection \<open>C1: a failed conversion halts the pipeline\<close>

text \<open>
  C1. When the conversion stage fails (ffmpeg exits with a non-zero code, is ended by a
  signal, or cannot be launched) the pipeline halts: the only tool the run calls is
  ffmpeg, so the transcription and summarisation tools are never invoked; the job ends
  with status \<open>error\<close> and the conversion step in \<open>error\<close>; the transcription and
  summary steps are \<open>pending\<close> and stay so, with the status, under every later sequence
  of submissions, status queries, post-hoc attach requests and steps of other jobs.
\<close>

theorem conversion_failure_halts:
  assumes fresh: "objs w this = AudioProcessor pid file md"
    and alloc: "this < next_ref w"
    and fail: "ffmpeg e \<noteq> Close (Some 0)"
    and later: "\<forall>x \<in> set later. processor_of x \<noteq> Some this"
  shows "log (snd (process this e w)) = log w @ [ffmpeg_call file pid]
       \<and> (let job = objs (run later (snd (process this e w))) this
          in status job = Error
           \<and> error job = Some (fst (conversion_failure e))
           \<and> step_status (steps job Conversion) = Error
           \<and> steps job Transcription = pending
           \<and> steps job Summary = pending)"
proof -
  let ?w = "snd (process this e w)"
  note pf = process_conversion_fails [OF fresh fail]
  have st: "status (objs ?w this) \<noteq> Completed"
    by (simp add: pf(2))
  have nr: "this < next_ref ?w"
    using alloc by (simp add: next_ref_process)
  have "objs (run later ?w) this = objs ?w this"
    using later nr st by (rule run_frame)
  then show ?thesis
    by (simp add: pf Let_def)
qed

theorem conversion_failure_halts_witness:
  "log (snd (process 0 env_ffmpeg_fails acme_world)) =
     [ffmpeg_call ''uploads/u1_call.m4a'' (uuidv4 (\<lambda>i. i))]
 \<and> status (objs (run [StatusQuery (uuidv4 (\<lambda>i. i)), HubspotAttach (uuidv4 (\<lambda>i. i))]
                  (snd (process 0 env_ffmpeg_fails acme_world))) 0) = Error
 \<and> steps (objs (run [StatusQuery (uuidv4 (\<lambda>i. i)), HubspotAttach (uuidv4 (\<lambda>i. i))]
                 (snd (process 0 env_ffmpeg_fails acme_world))) 0) Transcription = pending
 \<and> steps (objs (run [StatusQuery (uuidv4 (\<lambda>i. i)), HubspotAttach (uuidv4 (\<lambda>i. i))]
                 (snd (process 0 env_ffmpeg_fails acme_world))) 0) Summary = pending
 \<and> status (objs (snd (process 0 env_no_ffmpeg acme_world)) 0) = Error
 \<and> error (objs (snd (process 0 env_no_ffmpeg acme_world)) 0) = Some ''spawn ffmpeg ENOENT''
 \<and> log (snd (process 0 env_no_ffmpeg acme_world)) =
     [ffmpeg_call ''uploads/u1_call.m4a'' (uuidv4 (\<lambda>i. i))]"
proof -
  have alloc: "0 < next_ref acme_world"
    by (simp add: acme_world_simps)
  have fail: "ffmpeg env_ffmpeg_fails \<noteq> Close (Some 0)"
    by (simp add: env_ffmpeg_fails_def)
  have launch: "ffmpeg env_no_ffmpeg \<noteq> Close (Some 0)"
    "fst (conversion_failure env_no_ffmpeg) = ''spawn ffmpeg ENOENT''"
    by (simp_all add: env_no_ffmpeg_def conversion_failure_def)
  have later: "\<forall>x \<in> set [StatusQuery (uuidv4 (\<lambda>i. i)), HubspotAttach (uuidv4 (\<lambda>i. i))].
                 processor_of x \<noteq> Some 0"
    by simp
  have none: "\<forall>x \<in> set []. processor_of x \<noteq> Some 0"
    by simp
  show ?thesis
    using conversion_failure_halts [OF acme_world_simps(1) alloc fail later]
      conversion_failure_halts [OF acme_world_simps(1) alloc launch(1) none] launch(2)
    by (simp add: acme_world_simps Let_def)
qed

subsection \<open>C2: a run in which every adapter succeeds\<close>

lemma env_silent_simps:
  "ffmpeg env_silent = Close (Some 0)" "whisper env_silent = Close (Some 0)"
  "whisper_txt env_silent = Some []" "transcript_write env_silent = None"
  "summary_ok env_silent"
  "summary_write env_silent = Some ''ENOSPC: no space left on device, write''"
  "summary_now env_silent = ''2024-05-01T10:15:42.500Z''"
  "ollama_stdout env_silent = ''SUMMARY TEXT''"
  by (simp_all add: env_silent_def env_ok_simps summary_ok_def trim_hello)

text \<open>
  C2 as stated fails. The job below is \<open>req_acme\<close> on the empty server; ffmpeg, whisper
  and ollama all exit with code zero, every promise of the three adapters resolves and
  the job ends \<open>completed\<close>. But whisper's text file is empty (a silent recording),
  so the recorded transcription is the empty string; and the write of the
  summary file fails, which the source swallows, so no summary file exists.
\<close>

theorem all_adapters_succeed_counterexample:
  "fst (process 0 env_silent acme_world) = Inr ([], ''SUMMARY TEXT'', acme_md)
 \<and> status (objs (snd (process 0 env_silent acme_world)) 0) = Completed
 \<and> transcription (results (objs (snd (process 0 env_silent acme_world)) 0)) = Some []
 \<and> files (snd (process 0 env_silent acme_world))
      ''summaries/summary_2024-05-01T10-15-42_Acme_123.txt'' = None"
proof -
  note pc = process_completes [OF acme_world_simps(1) env_silent_simps(1-5)]
  have p: "summary_path env_silent acme_md = ''summaries/summary_2024-05-01T10-15-42_Acme_123.txt''"
    by (rule acme_paths(3)) (rule env_silent_simps)
  show ?thesis
    using pc(1,2,5) p
    by (simp add: env_silent_simps trim_hello acme_world_simps)
qed

lemma save_name_client:
  assumes "clientName md = Some c" "c \<noteq> []"
  shows "save_name kind now md =
           (kind @ ''_'' @ timestamp_of now @ ''_'') @ sanitize c @ (name_info (caseNumber md) @ ''.txt'')"
  using assms by (simp add: save_name_def name_info_def)

lemma save_name_case:
  assumes "caseNumber md = Some c" "c \<noteq> []"
  shows "save_name kind now md =
           (kind @ ''_'' @ timestamp_of now @ name_info (clientName md) @ ''_'') @ sanitize c @ ''.txt''"
  using assms by (simp add: save_name_def name_info_def)

lemma sublist_path_join: "sublist xs name \<Longrightarrow> sublist xs (path_join dir name)"
  unfolding path_join_def sublist_def
proof -
  assume "\<exists>ps ss. name = ps @ xs @ ss"
  then obtain ps ss where "name = ps @ xs @ ss" by blast
  then have "dir @ ''/'' @ name = (dir @ ''/'' @ ps) @ xs @ ss" by simp
  then show "\<exists>ps ss. dir @ ''/'' @ name = ps @ xs @ ss" by blast
qed

lemma save_name_contains_client:
  assumes "clientName md = Some c" "c \<noteq> []"
  shows "sublist (sanitize c) (save_name kind now md)"
  by (subst save_name_client [OF assms]) (rule sublist_appendI)

lemma save_name_contains_case:
  assumes "caseNumber md = Some n" "n \<noteq> []"
  shows "sublist (sanitize n) (save_name kind now md)"
  by (subst save_name_case [OF assms]) (rule sublist_appendI)

text \<open>
  C2, amended. For every job in which the three adapters succeed the status ends as
  \<open>completed\<close>; the recorded summary is a non-empty string; the recorded transcription is the trimmed
  content of whisper's text file, which may be empty; the transcript file exists on
  disk with that content; the summary file exists with the summary provided its write
  did not fail; and both file names contain the sanitized client name and the sanitized
  case number when these were supplied (not empty).
\<close>

theorem all_adapters_succeed:
  assumes fresh: "objs w this = AudioProcessor pid file md"
    and conv: "ffmpeg e = Close (Some 0)"
    and whisp: "whisper e = Close (Some 0)" "whisper_txt e = Some t" "transcript_write e = None"
    and summ: "ollama e = Close (Some 0)" "trim (ollama_stdout e) \<noteq> []"
  shows "status (objs (snd (process this e w)) this) = Completed
       \<and> transcription (results (objs (snd (process this e w)) this)) = Some (trim t)
       \<and> summary (results (objs (snd (process this e w)) this)) = Some (trim (ollama_stdout e))
       \<and> trim (ollama_stdout e) \<noteq> []
       \<and> files (snd (process this e w)) (transcript_path e md) = Some (trim t)
       \<and> (summary_write e = None \<longrightarrow>
            files (snd (process this e w)) (summary_path e md) = Some (trim (ollama_stdout e)))
       \<and> (\<forall>c. clientName md = Some c \<and> c \<noteq> [] \<longrightarrow>
            sublist (sanitize c) (transcript_path e md) \<and> sublist (sanitize c) (summary_path e md))
       \<and> (\<forall>n. caseNumber md = Some n \<and> n \<noteq> [] \<longrightarrow>
            sublist (sanitize n) (transcript_path e md) \<and> sublist (sanitize n) (summary_path e md))"
proof -
  from summ have ok: "summary_ok e" by (simp add: summary_ok_def)
  note pc = process_completes [OF fresh conv whisp ok]
  have client: "sublist (sanitize c) (transcript_path e md) \<and> sublist (sanitize c) (summary_path e md)"
    if "clientName md = Some c \<and> c \<noteq> []" for c
    using that unfolding transcript_path_def summary_path_def
    by (blast intro: sublist_path_join save_name_contains_client)
  have casen: "sublist (sanitize n) (transcript_path e md) \<and> sublist (sanitize n) (summary_path e md)"
    if "caseNumber md = Some n \<and> n \<noteq> []" for n
    using that unfolding transcript_path_def summary_path_def
    by (blast intro: sublist_path_join save_name_contains_case)
  have "status (objs (snd (process this e w)) this) = Completed"
    "transcription (results (objs (snd (process this e w)) this)) = Some (trim t)"
    "summary (results (objs (snd (process this e w)) this)) = Some (trim (ollama_stdout e))"
    by (simp_all add: pc(2))
  with summ pc(4,5) client casen show ?thesis by simp
qed

theorem all_adapters_succeed_witness:
  "status (objs (snd (process 0 env_ok acme_world)) 0) = Completed
 \<and> transcription (results (objs (snd (process 0 env_ok acme_world)) 0)) = Some ''HELLO''
 \<and> summary (results (objs (snd (process 0 env_ok acme_world)) 0)) = Some ''SUMMARY TEXT''
 \<and> files (snd (process 0 env_ok acme_world))
      ''transcripts/transcript_2024-05-01T10-15-30_Acme_123.txt'' = Some ''HELLO''
 \<and> files (snd (process 0 env_ok acme_world))
      ''summaries/summary_2024-05-01T10-15-42_Acme_123.txt'' = Some ''SUMMARY TEXT''
 \<and> sublist (sanitize ''Acme'') ''transcripts/transcript_2024-05-01T10-15-30_Acme_123.txt''
 \<and> sublist (sanitize ''123'') ''summaries/summary_2024-05-01T10-15-42_Acme_123.txt''"
proof -
  have e: "ffmpeg env_ok = Close (Some 0)" "whisper env_ok = Close (Some 0)"
    "whisper_txt env_ok = Some '' HELLO ''" "transcript_write env_ok = None"
    "ollama env_ok = Close (Some 0)" "trim (ollama_stdout env_ok) \<noteq> []"
    by (simp_all add: env_ok_simps trim_hello)
  have p: "transcript_path env_ok acme_md = ''transcripts/transcript_2024-05-01T10-15-30_Acme_123.txt''"
    "summary_path env_ok acme_md = ''summaries/summary_2024-05-01T10-15-42_Acme_123.txt''"
    by (simp_all add: acme_paths env_ok_simps)
  show ?thesis
    using all_adapters_succeed [OF acme_world_simps(1) e] p
    by (simp add: env_ok_simps trim_hello acme_md_simps)
qed

subsection \<open>C3: cleanup of the converted audio\<close>

lemma env_whisper_fails_simps:
  "ffmpeg env_whisper_fails = Close (Some 0)" "whisper env_whisper_fails \<noteq> Close (Some 0)"
  "whisper env_whisper_fails = Close (Some 1)"
  "ffmpeg_out env_whisper_fails = Some ''RIFF''" "whisper_txt env_whisper_fails = None"
  by (simp_all add: env_whisper_fails_def env_ok_simps)

lemma acme_wav_path:
  "wav_path (uuidv4 (\<lambda>i. i)) = ''temp/01234567-89ab-4cde-b012-3456789abcde.wav''"
  by (simp add: uuid_id wav_path_def path_join_def)

text \<open>
  C3 at a failing input. The job of \<open>req_acme\<close>: ffmpeg exits 0 and leaves the wav file,
  whisper exits 1. The job ends in \<open>error\<close> with \<open>results.wavFile\<close> set, the wav file is
  still on disk and the run never calls \<open>unlink\<close> on it: \<open>cleanup()\<close> is only reached on
  the path that ends \<open>completed\<close> (see \<open>process_completes\<close>, whose log ends with the
  unlink, whatever its outcome).
\<close>

theorem cleanup_skipped_after_failure:
  "status (objs (snd (process 0 env_whisper_fails acme_world)) 0) = Error
 \<and> wavFile (results (objs (snd (process 0 env_whisper_fails acme_world)) 0)) =
      Some ''temp/01234567-89ab-4cde-b012-3456789abcde.wav''
 \<and> files (snd (process 0 env_whisper_fails acme_world))
      ''temp/01234567-89ab-4cde-b012-3456789abcde.wav'' = Some ''RIFF''
 \<and> Unlink ''temp/01234567-89ab-4cde-b012-3456789abcde.wav''
      \<notin> set (log (snd (process 0 env_whisper_fails acme_world)))"
proof -
  note pf = process_transcription_fails
    [OF acme_world_simps(1) env_whisper_fails_simps(1) env_whisper_fails_simps(2)]
  show ?thesis
    by (simp add: pf acme_wav_path [symmetric] env_whisper_fails_simps acme_world_simps
          ffmpeg_call_def whisper_call_def artifact_paths_differ [symmetric])
qed

subsection \<open>C4: the attach step at submission\<close>

lemma req_attach_simps:
  "req_file req_attach = Some \<lparr>file_path = ''uploads/u1_call.m4a'', file_originalname = ''call.m4a''\<rparr>"
  "body_attachToHubspot (req_body req_attach) = Some ''true''"
  "request_metadata req_attach \<lparr>file_path = ''uploads/u1_call.m4a'', file_originalname = ''call.m4a''\<rparr>
     ''2024-05-01T10:15:00.000Z'' = acme_md"
  by (simp_all add: req_attach_def req_acme_def request_metadata_def acme_md_def)

text \<open>
  A job submitted through the route, with the three tools succeeding: it ends
  \<open>completed\<close> with the attach step \<open>pending\<close> and no attach call; and, when the registry
  only holds allocated processors, it is known to the registry under its own id only and
  keeps that state under every later operation that is neither a step of its pipeline
  nor a post-hoc attach request for its id.
\<close>

lemma submitted_job_completes:
  assumes upl: "req_file req = Some f"
    and conv: "ffmpeg e = Close (Some 0)"
    and whisp: "whisper e = Close (Some 0)" "whisper_txt e = Some t" "transcript_write e = None"
    and summ: "summary_ok e"
  shows "fst (submit_and_process req rnd now e w) = (ProcessingStarted (uuidv4 rnd), Some (next_ref w))"
    and "objs (snd (submit_and_process req rnd now e w)) (next_ref w) =
           (AudioProcessor (uuidv4 rnd) (file_path f) (request_metadata req f now))
             \<lparr>status := Completed,
              steps := final_steps (uuidv4 rnd) False,
              results := \<lparr>wavFile = Some (wav_path (uuidv4 rnd)), transcription = Some (trim t),
                          summary = Some (trim (ollama_stdout e))\<rparr>\<rparr>"
    and "HubspotApi \<notin> set (drop (length (log w)) (log (snd (submit_and_process req rnd now e w))))"
    and "next_ref w < next_ref (snd (submit_and_process req rnd now e w))"
    and "(\<forall>p r. processingJobs w p = Some r \<longrightarrow> r < next_ref w) \<Longrightarrow>
           \<forall>p. processingJobs (snd (submit_and_process req rnd now e w)) p = Some (next_ref w)
                 \<longrightarrow> p = uuidv4 rnd"
proof -
  let ?w1 = "snd (post_process_audio req rnd now w)"
  let ?md = "request_metadata req f now"
  note hw = world_post_process_audio [OF upl, of rnd now w]
  have fresh: "objs ?w1 (next_ref w) = AudioProcessor (uuidv4 rnd) (file_path f) ?md"
    by (simp add: hw)
  have flag: "\<not> attachToHubspot_flag ?md" by (simp add: request_metadata_def)
  note pc = process_completes [OF fresh conv whisp summ]
  note eq = submit_and_process_eq [OF upl, of rnd now e w]
  show "fst (submit_and_process req rnd now e w) = (ProcessingStarted (uuidv4 rnd), Some (next_ref w))"
    using hw(1) by (cases "post_process_audio req rnd now w") (simp add: submit_and_process_def)
  show "objs (snd (submit_and_process req rnd now e w)) (next_ref w) =
           (AudioProcessor (uuidv4 rnd) (file_path f) (request_metadata req f now))
             \<lparr>status := Completed,
              steps := final_steps (uuidv4 rnd) False,
              results := \<lparr>wavFile = Some (wav_path (uuidv4 rnd)), transcription = Some (trim t),
                          summary = Some (trim (ollama_stdout e))\<rparr>\<rparr>"
    using flag by (simp add: eq pc(2))
  show "HubspotApi \<notin> set (drop (length (log w)) (log (snd (submit_and_process req rnd now e w))))"
    using flag by (simp add: eq pc(3) hw ffmpeg_call_def whisper_call_def ollama_call_def)
  show "next_ref w < next_ref (snd (submit_and_process req rnd now e w))"
    by (simp add: eq next_ref_process hw)
  show "\<forall>p. processingJobs (snd (submit_and_process req rnd now e w)) p = Some (next_ref w)
                 \<longrightarrow> p = uuidv4 rnd"
    if wf: "\<forall>p r. processingJobs w p = Some r \<longrightarrow> r < next_ref w"
  proof (intro allI impI)
    fix p
    assume "processingJobs (snd (submit_and_process req rnd now e w)) p = Some (next_ref w)"
    then have "processingJobs (snd (process (next_ref w) e ?w1)) p = Some (next_ref w)"
      by (simp add: eq)
    then have "p = processId (objs ?w1 (next_ref w)) \<or> processingJobs ?w1 p = Some (next_ref w)"
      using registry_process_cases [of "next_ref w" e ?w1 p "next_ref w"] by blast
    then show "p = uuidv4 rnd"
      using wf by (auto simp add: fresh AudioProcessor_def hw split: if_splits)
  qed
qed

lemma submitted_job_registered:
  assumes upl: "req_file req = Some f"
  shows "processingJobs (snd (submit_and_process req rnd now e w)) (uuidv4 rnd) = Some (next_ref w)"
proof -
  note hw = world_post_process_audio [OF upl, of rnd now w]
  have fresh: "objs (snd (post_process_audio req rnd now w)) (next_ref w) =
      AudioProcessor (uuidv4 rnd) (file_path f) (request_metadata req f now)"
    by (simp add: hw)
  show ?thesis
    using registry_process_this [OF fresh, of e]
    by (simp add: submit_and_process_eq [OF upl])
qed

lemma req_acme_simps:
  "body_attachToHubspot (req_body req_acme) = None"
  by (simp add: req_acme_def)

text \<open>
  C4 as stated fails, in both halves. A submission whose form carries
  \<open>attachToHubspot = true\<close>: the handler copies three body fields into the metadata and
  nothing else, the pipeline completes, and the attach step is still \<open>pending\<close>; the
  attach adapter was never called. And a submission without an attach request: its
  attach step is \<open>pending\<close> when the pipeline completes, but a post-hoc attach request
  for the job then sets it to \<open>completed\<close>, so it does not stay \<open>pending\<close> forever.
\<close>

theorem attach_request_counterexample:
  "body_attachToHubspot (req_body req_attach) = Some ''true''
 \<and> fst (submit_and_process req_attach (\<lambda>i. i) ''2024-05-01T10:15:00.000Z'' env_ok world0) =
      (ProcessingStarted ''01234567-89ab-4cde-b012-3456789abcde'', Some 0)
 \<and> status (objs (snd (submit_and_process req_attach (\<lambda>i. i) ''2024-05-01T10:15:00.000Z''
                         env_ok world0)) 0) = Completed
 \<and> step_status (steps (objs (snd (submit_and_process req_attach (\<lambda>i. i)
                         ''2024-05-01T10:15:00.000Z'' env_ok world0)) 0) Hubspot) = Pending
 \<and> HubspotApi \<notin> set (log (snd (submit_and_process req_attach (\<lambda>i. i)
                         ''2024-05-01T10:15:00.000Z'' env_ok world0)))
 \<and> body_attachToHubspot (req_body req_acme) = None
 \<and> status (objs (snd (submit_and_process req_acme (\<lambda>i. i) ''2024-05-01T10:15:00.000Z''
                         env_ok world0)) 0) = Completed
 \<and> step_status (steps (objs (snd (submit_and_process req_acme (\<lambda>i. i)
                         ''2024-05-01T10:15:00.000Z'' env_ok world0)) 0) Hubspot) = Pending
 \<and> step_status (steps (objs (snd (post_hubspot_attach ''01234567-89ab-4cde-b012-3456789abcde''
                         (snd (submit_and_process req_acme (\<lambda>i. i)
                                 ''2024-05-01T10:15:00.000Z'' env_ok world0)))) 0) Hubspot)
      = Completed"
proof -
  let ?w = "snd (submit_and_process req_acme (\<lambda>i. i) ''2024-05-01T10:15:00.000Z'' env_ok world0)"
  note sj = submitted_job_completes(1-3)
    [OF req_attach_simps(1) env_ok_simps(2) env_ok_simps(4) env_ok_simps(5) env_ok_simps(7)
        summary_ok_env_ok,
      where rnd = "\<lambda>i. i" and now = "''2024-05-01T10:15:00.000Z''" and w = world0]
  note sa = submitted_job_completes(2)
    [OF acme_file env_ok_simps(2) env_ok_simps(4) env_ok_simps(5) env_ok_simps(7)
        summary_ok_env_ok,
      where rnd = "\<lambda>i. i" and now = "''2024-05-01T10:15:00.000Z''" and w = world0]
  have first: "status (objs
        (snd (submit_and_process req_attach (\<lambda>i. i) ''2024-05-01T10:15:00.000Z'' env_ok world0)) 0)
          = Completed
      \<and> step_status (steps (objs
        (snd (submit_and_process req_attach (\<lambda>i. i) ''2024-05-01T10:15:00.000Z'' env_ok world0)) 0)
          Hubspot) = Pending
      \<and> HubspotApi \<notin> set (log
        (snd (submit_and_process req_attach (\<lambda>i. i) ''2024-05-01T10:15:00.000Z'' env_ok world0)))
      \<and> fst (submit_and_process req_attach (\<lambda>i. i) ''2024-05-01T10:15:00.000Z'' env_ok world0) =
          (ProcessingStarted ''01234567-89ab-4cde-b012-3456789abcde'', Some 0)"
    using sj by (simp add: world0_simps req_attach_simps uuid_id pending_def final_steps_def)
  have st: "status (objs ?w 0) = Completed"
    and pend: "step_status (steps (objs ?w 0) Hubspot) = Pending"
    using sa by (simp_all add: world0_simps final_steps_def pending_def)
  have reg: "processingJobs ?w ''01234567-89ab-4cde-b012-3456789abcde'' = Some 0"
    using submitted_job_registered [OF acme_file, of "\<lambda>i. i" "''2024-05-01T10:15:00.000Z''" env_ok world0]
    by (simp add: uuid_id world0_simps)
  have post: "post_hubspot_attach ''01234567-89ab-4cde-b012-3456789abcde'' ?w =
      (Attached, snd (attachToHubspot 0 ?w))"
    using reg st by (rule world_post_hubspot_attach(3))
  have flip: "step_status (steps (objs (snd (post_hubspot_attach
      ''01234567-89ab-4cde-b012-3456789abcde'' ?w)) 0) Hubspot) = Completed"
    by (simp add: post objs_attachToHubspot)
  from first st pend flip show ?thesis
    by (simp add: req_attach_simps req_acme_simps)
qed

text \<open>
  C4, amended. When the three tools succeed: every job submitted through the route,
  whether or not the request asks for the attach step, ends its pipeline \<open>completed\<close>
  with the attach step \<open>pending\<close> and no attach call, because the handler never sets the
  flag; and it stays \<open>completed\<close> with the attach step \<open>pending\<close> forever after, under
  every later sequence of operations (submissions, steps and runs of other jobs, status
  queries, post-hoc attach requests for other jobs) that holds no post-hoc attach
  request for this job and no step of its own, finished, pipeline. The registry is taken
  to hold allocated processors only, as it does on every server state the routes
  produce. A processor built with metadata ends \<open>completed\<close> with the attach step
  \<open>completed\<close> when its metadata has a truthy \<open>attachToHubspot\<close>, and \<open>pending\<close> when it
  has not.
\<close>

theorem attach_stage_after_pipeline:
  assumes conv: "ffmpeg e = Close (Some 0)"
    and whisp: "whisper e = Close (Some 0)" "whisper_txt e = Some t" "transcript_write e = None"
    and summ: "ollama e = Close (Some 0)" "trim (ollama_stdout e) \<noteq> []"
  shows "(req_file req = Some f
            \<and> (\<forall>p r. processingJobs w p = Some r \<longrightarrow> r < next_ref w)
            \<and> (\<forall>x \<in> set later. processor_of x \<noteq> Some (next_ref w)
                                \<and> attach_target x \<noteq> Some (uuidv4 rnd)) \<longrightarrow>
            HubspotApi \<notin> set (drop (length (log w))
                                  (log (snd (submit_and_process req rnd now e w))))
          \<and> status (objs (run later (snd (submit_and_process req rnd now e w))) (next_ref w))
              = Completed
          \<and> steps (objs (run later (snd (submit_and_process req rnd now e w))) (next_ref w))
              Hubspot = pending)
       \<and> (objs w this = AudioProcessor pid audio md \<longrightarrow>
            status (objs (snd (process this e w)) this) = Completed
          \<and> steps (objs (snd (process this e w)) this) Hubspot =
              (if attachToHubspot_flag md
               then \<lparr>step_status = Completed, step_data = NoData\<rparr> else pending))"
proof -
  from summ have ok: "summary_ok e" by (simp add: summary_ok_def)
  have a: "HubspotApi \<notin> set (drop (length (log w))
                                  (log (snd (submit_and_process req rnd now e w))))
          \<and> status (objs (run later (snd (submit_and_process req rnd now e w))) (next_ref w))
              = Completed
          \<and> steps (objs (run later (snd (submit_and_process req rnd now e w))) (next_ref w))
              Hubspot = pending"
    if upl: "req_file req = Some f"
      and wf: "\<forall>p r. processingJobs w p = Some r \<longrightarrow> r < next_ref w"
      and later: "\<forall>x \<in> set later. processor_of x \<noteq> Some (next_ref w)
                                \<and> attach_target x \<noteq> Some (uuidv4 rnd)"
  proof -
    note sj = submitted_job_completes
      [OF upl conv whisp ok, where rnd = rnd and now = now and w = w]
    have own: "\<forall>p. processingJobs (snd (submit_and_process req rnd now e w)) p = Some (next_ref w)
                 \<longrightarrow> p = uuidv4 rnd"
      using wf by (rule sj(5))
    have "objs (run later (snd (submit_and_process req rnd now e w))) (next_ref w) =
            objs (snd (submit_and_process req rnd now e w)) (next_ref w)"
      using later sj(4) own by (rule run_keeps)
    with sj(2,3) show ?thesis
      by (simp add: final_steps_def)
  qed
  have b: "status (objs (snd (process this e w)) this) = Completed
          \<and> steps (objs (snd (process this e w)) this) Hubspot =
              (if attachToHubspot_flag md
               then \<lparr>step_status = Completed, step_data = NoData\<rparr> else pending)"
    if "objs w this = AudioProcessor pid audio md"
    by (simp add: process_completes(2) [OF that conv whisp ok] final_steps_def)
  from a b show ?thesis by blast
qed

theorem attach_stage_after_pipeline_witness:
  "steps (objs (run [StatusQuery (uuidv4 (\<lambda>i. i)),
                     Submit req_acme (\<lambda>i. i + 7) ''2024-05-01T10:15:01.000Z'',
                     Process 1 env_ok,
                     HubspotAttach (uuidv4 (\<lambda>i. i + 7))]
                  (snd (submit_and_process req_attach (\<lambda>i. i) ''2024-05-01T10:15:00.000Z''
                          env_ok world0))) 0) Hubspot = pending
 \<and> status (objs (snd (process 0 env_ok attach_world)) 0) = Completed
 \<and> step_status (steps (objs (snd (process 0 env_ok attach_world)) 0) Hubspot) = Completed"
proof -
  have e: "ffmpeg env_ok = Close (Some 0)" "whisper env_ok = Close (Some 0)"
    "whisper_txt env_ok = Some '' HELLO ''" "transcript_write env_ok = None"
    "ollama env_ok = Close (Some 0)" "trim (ollama_stdout env_ok) \<noteq> []"
    by (simp_all add: env_ok_simps trim_hello)
  have ids: "uuidv4 (\<lambda>i. i + 7) \<noteq> uuidv4 (\<lambda>i. i)"
    by (simp add: uuid_id uuid_shift)
  have later: "\<forall>x \<in> set [StatusQuery (uuidv4 (\<lambda>i. i)),
                     Submit req_acme (\<lambda>i. i + 7) ''2024-05-01T10:15:01.000Z'',
                     Process 1 env_ok,
                     HubspotAttach (uuidv4 (\<lambda>i. i + 7))].
           processor_of x \<noteq> Some (next_ref world0) \<and> attach_target x \<noteq> Some (uuidv4 (\<lambda>i. i))"
    using ids by (simp add: world0_simps)
  have wf: "\<forall>p r. processingJobs world0 p = Some r \<longrightarrow> r < next_ref world0"
    by (simp add: world0_simps)
  show ?thesis
    using attach_stage_after_pipeline
      [OF e, where req = req_attach and rnd = "\<lambda>i. i" and now = "''2024-05-01T10:15:00.000Z''"
         and w = world0 and f = "\<lparr>file_path = ''uploads/u1_call.m4a'', file_originalname = ''call.m4a''\<rparr>"
         and later = "[StatusQuery (uuidv4 (\<lambda>i. i)),
                     Submit req_acme (\<lambda>i. i + 7) ''2024-05-01T10:15:01.000Z'',
                     Process 1 env_ok,
                     HubspotAttach (uuidv4 (\<lambda>i. i + 7))]"]
      attach_stage_after_pipeline
      [OF e, where w = attach_world and this = 0 and pid = "''job-1''"
         and audio = "''uploads/a.m4a''" and md = attach_md]
      later wf
    by (simp only: req_attach_simps world0_simps attach_world_simps simp_thms if_True
          step.simps)
qed

subsection \<open>C5: the post-hoc attach route\<close>

text \<open>
  C5. The post-hoc attach route on a registered job. If the job's status is not
  \<open>completed\<close> the answer is the 400 \<open>Processing not completed\<close> and the server state
  is left exactly as it was: the attach adapter is not invoked and the attach step is
  untouched. If the status is \<open>completed\<close> the attach adapter is invoked once (one call
  in the log), the answer is the 200, the attach step is rewritten to \<open>completed\<close> and
  the status stays \<open>completed\<close>.
\<close>

theorem post_hoc_attach_gate:
  assumes reg: "processingJobs w pid = Some job"
  shows "(status (objs w job) \<noteq> Completed \<longrightarrow>
            post_hubspot_attach pid w = (NotCompleted, w))
       \<and> (status (objs w job) = Completed \<longrightarrow>
            fst (post_hubspot_attach pid w) = Attached
          \<and> log (snd (post_hubspot_attach pid w)) = log w @ [HubspotApi]
          \<and> steps (objs (snd (post_hubspot_attach pid w)) job) Hubspot =
              \<lparr>step_status = Completed, step_data = NoData\<rparr>
          \<and> status (objs (snd (post_hubspot_attach pid w)) job) = Completed)"
  using reg
  by (simp add: world_post_hubspot_attach objs_attachToHubspot world_attachToHubspot)

theorem post_hoc_attach_gate_witness:
  "post_hubspot_attach (uuidv4 (\<lambda>i. i)) acme_world = (NotCompleted, acme_world)
 \<and> step_status (steps (objs (snd (process 0 env_ok acme_world)) 0) Hubspot) = Pending
 \<and> fst (post_hubspot_attach (uuidv4 (\<lambda>i. i)) (snd (process 0 env_ok acme_world))) = Attached
 \<and> log (snd (post_hubspot_attach (uuidv4 (\<lambda>i. i)) (snd (process 0 env_ok acme_world)))) =
      log (snd (process 0 env_ok acme_world)) @ [HubspotApi]
 \<and> step_status (steps (objs (snd (post_hubspot_attach (uuidv4 (\<lambda>i. i))
                                    (snd (process 0 env_ok acme_world)))) 0) Hubspot) =
      Completed"
proof -
  let ?w' = "snd (process 0 env_ok acme_world)"
  have reg: "processingJobs acme_world (uuidv4 (\<lambda>i. i)) = Some 0"
    by (simp add: acme_world_simps)
  have st: "status (objs acme_world 0) \<noteq> Completed"
    by (simp add: acme_world_simps AudioProcessor_def)
  note pc = process_completes
    [OF acme_world_simps(1) env_ok_simps(2) env_ok_simps(4) env_ok_simps(5) env_ok_simps(7)
        summary_ok_env_ok]
  have reg': "processingJobs ?w' (uuidv4 (\<lambda>i. i)) = Some 0"
    by (rule registry_process_this [OF acme_world_simps(1)])
  have st': "status (objs ?w' 0) = Completed"
    by (simp add: pc(2))
  show ?thesis
    using post_hoc_attach_gate [OF reg] post_hoc_attach_gate [OF reg'] st st' acme_md_simps(3)
    by (simp add: pc(2) final_steps_def pending_def)
qed

subsection \<open>C6: the outcome of the summary step\<close>

text \<open>
  C6. The summary step is marked \<open>completed\<close> exactly when ollama exits with code zero
  and its output is not empty, and \<open>error\<close> otherwise. The output is tested as the
  source tests it, after \<open>trim()\<close>: an output of white space only counts as empty. The
  equation holds for \<open>generateSummary\<close> in any state and for the whole run of a job whose
  conversion and transcription succeeded; when the condition fails the job halts with
  status \<open>error\<close>, no summary recorded and the attach step still \<open>pending\<close>.
\<close>

theorem summary_stage_outcome:
  assumes fresh: "objs w this = AudioProcessor pid file md"
    and conv: "ffmpeg e = Close (Some 0)"
    and whisp: "whisper e = Close (Some 0)" "whisper_txt e = Some t" "transcript_write e = None"
  shows "step_status (steps (objs (snd (generateSummary this (trim t) e w1)) this) Summary) =
           (if ollama e = Close (Some 0) \<and> trim (ollama_stdout e) \<noteq> [] then Completed else Error)
       \<and> step_status (steps (objs (snd (process this e w)) this) Summary) =
           (if ollama e = Close (Some 0) \<and> trim (ollama_stdout e) \<noteq> [] then Completed else Error)
       \<and> (\<not> (ollama e = Close (Some 0) \<and> trim (ollama_stdout e) \<noteq> []) \<longrightarrow>
            status (objs (snd (process this e w)) this) = Error
          \<and> error (objs (snd (process this e w)) this) = Some (fst (summary_failure e))
          \<and> steps (objs (snd (process this e w)) this) Hubspot = pending
          \<and> summary (results (objs (snd (process this e w)) this)) = None)"
proof -
  have stage: "step_status (steps (objs (snd (generateSummary this (trim t) e w1)) this) Summary) =
           (if summary_ok e then Completed else Error)"
    by (simp add: objs_generateSummary)
  have job: "step_status (steps (objs (snd (process this e w)) this) Summary) =
           (if summary_ok e then Completed else Error)"
  proof (cases "summary_ok e")
    case False
    then show ?thesis
      by (simp add: process_summary_fails(2) [OF fresh conv whisp False])
  next
    case True
    then show ?thesis
      by (simp add: process_completes(2) [OF fresh conv whisp True] final_steps_def)
  qed
  have halt: "\<not> summary_ok e \<Longrightarrow>
            status (objs (snd (process this e w)) this) = Error
          \<and> error (objs (snd (process this e w)) this) = Some (fst (summary_failure e))
          \<and> steps (objs (snd (process this e w)) this) Hubspot = pending
          \<and> summary (results (objs (snd (process this e w)) this)) = None"
    by (simp add: process_summary_fails(2) [OF fresh conv whisp])
  from stage job halt show ?thesis
    unfolding summary_ok_def by blast
qed

theorem summary_stage_outcome_witness:
  "step_status (steps (objs (snd (process 0 env_ok acme_world)) 0) Summary) = Completed
 \<and> step_status (steps (objs (snd (process 0 env_blank_summary acme_world)) 0) Summary) = Error
 \<and> status (objs (snd (process 0 env_blank_summary acme_world)) 0) = Error"
proof -
  have e1: "ffmpeg env_ok = Close (Some 0)" "whisper env_ok = Close (Some 0)"
    "whisper_txt env_ok = Some '' HELLO ''" "transcript_write env_ok = None"
    "ollama env_ok = Close (Some 0)" "trim (ollama_stdout env_ok) \<noteq> []"
    by (simp_all add: env_ok_simps trim_hello)
  have e2: "ffmpeg env_blank_summary = Close (Some 0)" "whisper env_blank_summary = Close (Some 0)"
    "whisper_txt env_blank_summary = Some '' HELLO ''" "transcript_write env_blank_summary = None"
    "ollama env_blank_summary = Close (Some 0)" "trim (ollama_stdout env_blank_summary) = []"
    by (simp_all add: env_blank_summary_def env_ok_simps trim_hello)
  show ?thesis
    using summary_stage_outcome [OF acme_world_simps(1) e1(1-4), of acme_world]
      summary_stage_outcome [OF acme_world_simps(1) e2(1-4), of acme_world] e1 e2
    by simp
qed

subsection \<open>C7: the attach step never blocks completion\<close>



subsection \<open>C8: no job leaves the registry\<close>

text \<open>
  C8. A process id that is in the registry stays in it under every sequence of
  operations (submissions, pipeline steps of any processor, whole pipeline runs, status
  queries, post-hoc attach requests): the lookup by that id succeeds and the status
  route does not answer 404.
\<close>

theorem registry_never_forgets:
  assumes "pid \<in> dom (processingJobs w)"
  shows "pid \<in> dom (processingJobs (run later w)) \<and> get_status pid (run later w) \<noteq> None"
proof -
  from assms have "processingJobs w pid \<noteq> None" by auto
  then have "processingJobs (run later w) pid \<noteq> None" by (rule run_registry)
  then show ?thesis
    by (auto simp add: get_status_def Let_def)
qed

theorem registry_never_forgets_witness:
  "uuidv4 (\<lambda>i. i) \<in> dom (processingJobs acme_world)
 \<and> uuidv4 (\<lambda>i. i) \<in> dom (processingJobs
      (run [Process 0 env_whisper_fails, StatusQuery ''unknown'',
            HubspotAttach (uuidv4 (\<lambda>i. i)), Submit req_acme (\<lambda>i. i + 7) ''2024-05-01T10:15:01.000Z'',
            Process 1 env_ok, Cleanup 0 env_ok] acme_world))
 \<and> get_status (uuidv4 (\<lambda>i. i))
      (run [Process 0 env_whisper_fails, StatusQuery ''unknown'',
            HubspotAttach (uuidv4 (\<lambda>i. i)), Submit req_acme (\<lambda>i. i + 7) ''2024-05-01T10:15:01.000Z'',
            Process 1 env_ok, Cleanup 0 env_ok] acme_world) \<noteq> None"
proof -
  have d: "uuidv4 (\<lambda>i. i) \<in> dom (processingJobs acme_world)"
    by (simp add: acme_world_simps)
  show ?thesis
    using registry_never_forgets
      [OF d, of "[Process 0 env_whisper_fails, StatusQuery ''unknown'',
            HubspotAttach (uuidv4 (\<lambda>i. i)), Submit req_acme (\<lambda>i. i + 7) ''2024-05-01T10:15:01.000Z'',
            Process 1 env_ok, Cleanup 0 env_ok]"] d
    by blast
qed

subsection \<open>C9: artifact paths of concurrent jobs\<close>

lemma env_second_simps:
  "ffmpeg env_second = Close (Some 0)" "whisper env_second = Close (Some 0)"
  "whisper_txt env_second = Some ''WORLD''" "transcript_write env_second = None"
  "transcript_now env_second = ''2024-05-01T10:15:30.870Z''" "unlink_txt_ok env_second"
  "ffmpeg_out env_second = Some ''RIFF''"
  by (simp_all add: env_second_def env_ok_simps)

lemma acme_md_shift:
  "request_metadata req_acme \<lparr>file_path = ''uploads/u1_call.m4a'', file_originalname = ''call.m4a''\<rparr>
     ''2024-05-01T10:15:01.000Z'' = acme_md\<lparr>uploadedAt := ''2024-05-01T10:15:01.000Z''\<rparr>"
  by (simp add: request_metadata_def req_acme_def acme_md_def)

lemma save_name_uploadedAt:
  "save_name kind now (md\<lparr>uploadedAt := u\<rparr>) = save_name kind now md"
  by (simp add: save_name_def)

lemma trim_world: "trim ''WORLD'' = ''WORLD''"
  by (simp add: trim_def is_space_def)

lemma two_jobs_eq:
  "two_jobs =
     snd (transcribeAudio 1 (wav_path (uuidv4 (\<lambda>i. i + 7))) env_second
       (snd (transcribeAudio 0 (wav_path (uuidv4 (\<lambda>i. i))) env_ok
         (snd (convertAudioToWav 1 env_second
           (snd (convertAudioToWav 0 env_ok
             (snd (post_process_audio req_acme (\<lambda>i. i + 7) ''2024-05-01T10:15:01.000Z''
               acme_world)))))))))"
  by (simp add: two_jobs_def acme_world_def)

text \<open>
  C9 as stated fails. Two jobs with different process ids, same client and case, running
  at the same time; their transcripts are saved within the same second. Both write the
  same transcript path, and the file keeps the second job's text only.
\<close>

theorem artifact_paths_counterexample:
  "processId (objs two_jobs 0) \<noteq> processId (objs two_jobs 1)
 \<and> step_status (steps (objs two_jobs 0) Transcription) = Completed
 \<and> step_status (steps (objs two_jobs 1) Transcription) = Completed
 \<and> WriteFile ''transcripts/transcript_2024-05-01T10-15-30_Acme_123.txt'' ''HELLO''
      \<in> set (log two_jobs)
 \<and> WriteFile ''transcripts/transcript_2024-05-01T10-15-30_Acme_123.txt'' ''WORLD''
      \<in> set (log two_jobs)
 \<and> files two_jobs ''transcripts/transcript_2024-05-01T10-15-30_Acme_123.txt'' = Some ''WORLD''"
proof -
  note t0 = transcribe_ok_world [OF env_ok_simps(4) env_ok_simps(5) env_ok_simps(7)]
  note t1 = transcribe_ok_world [OF env_second_simps(2) env_second_simps(3) env_second_simps(4)]
  note hw = world_post_process_audio [OF acme_file]
  have p: "path_join ''transcripts'' (save_name ''transcript'' ''2024-05-01T10:15:30.120Z'' acme_md)
             = ''transcripts/transcript_2024-05-01T10-15-30_Acme_123.txt''"
    "path_join ''transcripts'' (save_name ''transcript'' ''2024-05-01T10:15:30.870Z'' acme_md)
             = ''transcripts/transcript_2024-05-01T10-15-30_Acme_123.txt''"
    using acme_paths(1) [OF env_ok_simps(6)] acme_paths(2) [OF env_second_simps(5)]
    by (simp_all only: transcript_path_def env_ok_simps(6) env_second_simps(5))
  have ids: "uuidv4 (\<lambda>i. i) \<noteq> uuidv4 (\<lambda>i. i + 7)"
    by (simp add: uuid_id uuid_shift)
  have ne: "wav_path x @ ''.txt'' \<noteq> ''transcripts/transcript_2024-05-01T10-15-30_Acme_123.txt''"
    "wav_path x \<noteq> ''transcripts/transcript_2024-05-01T10-15-30_Acme_123.txt''"
    "''transcripts/transcript_2024-05-01T10-15-30_Acme_123'' \<noteq> wav_path x"
    "wav_path x \<noteq> ''transcripts/transcript_2024-05-01T10-15-30_Acme_123''" for x
    by (simp_all add: wav_path_def path_join_def)
  have o0: "objs two_jobs 0 =
      (AudioProcessor (uuidv4 (\<lambda>i. i)) ''uploads/u1_call.m4a'' acme_md)
        \<lparr>steps := (\<lambda>_. pending)
           (Conversion := \<lparr>step_status = Completed,
                           step_data = OutputPath (wav_path (uuidv4 (\<lambda>i. i)))\<rparr>,
            Transcription := \<lparr>step_status = Completed, step_data = NoData\<rparr>),
         results := \<lparr>wavFile = Some (wav_path (uuidv4 (\<lambda>i. i))),
                     transcription = Some ''HELLO'', summary = None\<rparr>\<rparr>"
    by (simp add: two_jobs_eq t0 t1 objs_convertAudioToWav hw acme_world_simps env_ok_simps
          env_second_simps AudioProcessor_def pending_def trim_hello)
  have o1: "objs two_jobs 1 =
      (AudioProcessor (uuidv4 (\<lambda>i. i + 7)) ''uploads/u1_call.m4a''
         (acme_md\<lparr>uploadedAt := ''2024-05-01T10:15:01.000Z''\<rparr>))
        \<lparr>steps := (\<lambda>_. pending)
           (Conversion := \<lparr>step_status = Completed,
                           step_data = OutputPath (wav_path (uuidv4 (\<lambda>i. i + 7)))\<rparr>,
            Transcription := \<lparr>step_status = Completed, step_data = NoData\<rparr>),
         results := \<lparr>wavFile = Some (wav_path (uuidv4 (\<lambda>i. i + 7))),
                     transcription = Some ''WORLD'', summary = None\<rparr>\<rparr>"
    by (simp add: two_jobs_eq t0 t1 objs_convertAudioToWav hw acme_world_simps env_ok_simps
          env_second_simps AudioProcessor_def pending_def trim_world acme_md_shift)
  have l: "log two_jobs =
      [ffmpeg_call ''uploads/u1_call.m4a'' (uuidv4 (\<lambda>i. i)),
       ffmpeg_call ''uploads/u1_call.m4a'' (uuidv4 (\<lambda>i. i + 7)),
       whisper_call env_ok (wav_path (uuidv4 (\<lambda>i. i))),
       ReadFile (wav_path (uuidv4 (\<lambda>i. i)) @ ''.txt''),
       WriteFile ''transcripts/transcript_2024-05-01T10-15-30_Acme_123.txt'' ''HELLO'',
       Unlink (wav_path (uuidv4 (\<lambda>i. i)) @ ''.txt''),
       whisper_call env_second (wav_path (uuidv4 (\<lambda>i. i + 7))),
       ReadFile (wav_path (uuidv4 (\<lambda>i. i + 7)) @ ''.txt''),
       WriteFile ''transcripts/transcript_2024-05-01T10-15-30_Acme_123.txt'' ''WORLD'',
       Unlink (wav_path (uuidv4 (\<lambda>i. i + 7)) @ ''.txt'')]"
    by (simp add: two_jobs_eq t0 t1 objs_convertAudioToWav log_convertAudioToWav hw
          acme_world_simps env_ok_simps env_second_simps AudioProcessor_def trim_hello trim_world
          acme_md_shift save_name_uploadedAt p ffmpeg_call_def whisper_call_def)
  have f: "files two_jobs ''transcripts/transcript_2024-05-01T10-15-30_Acme_123.txt'' = Some ''WORLD''"
    by (simp add: two_jobs_eq t0 t1 objs_convertAudioToWav files_convertAudioToWav hw
          acme_world_simps env_ok_simps env_second_simps AudioProcessor_def trim_hello trim_world
          acme_md_shift save_name_uploadedAt p ne Let_def)
  show ?thesis
    using ids o1 by (simp add: o0 l f AudioProcessor_def)
qed

lemma timestamp_length: "19 \<le> length now \<Longrightarrow> length (timestamp_of now) = 19"
  by (simp add: timestamp_of_def)

lemma save_name_eq_iff:
  assumes "19 \<le> length n1" "19 \<le> length n2"
  shows "save_name kind n1 m1 = save_name kind n2 m2 \<longleftrightarrow>
           timestamp_of n1 = timestamp_of n2 \<and> name_suffix m1 = name_suffix m2"
proof -
  have len: "length (timestamp_of n1) = length (timestamp_of n2)"
    using assms by (simp add: timestamp_length)
  have "save_name kind n1 m1 = save_name kind n2 m2 \<longleftrightarrow>
          timestamp_of n1 @ (name_suffix m1 @ ''.txt'') = timestamp_of n2 @ (name_suffix m2 @ ''.txt'')"
    by (simp add: save_name_def name_suffix_def)
  also have "\<dots> \<longleftrightarrow> timestamp_of n1 = timestamp_of n2 \<and> name_suffix m1 @ ''.txt'' = name_suffix m2 @ ''.txt''"
    using len by (simp add: append_eq_append_conv)
  also have "\<dots> \<longleftrightarrow> timestamp_of n1 = timestamp_of n2 \<and> name_suffix m1 = name_suffix m2"
    by simp
  finally show ?thesis .
qed

text \<open>
  C9, amended. The transient wav paths of two jobs are equal only if their process ids
  are equal, and no transcript path is a summary path or a wav path. Two transcript
  paths (and likewise two summary paths) are equal exactly when the two timestamps agree
  up to the second and the sanitized client and case parts of the names agree; so jobs
  with the same, or no, client and case that save within one second write the same
  path. (An ISO timestamp has at least 19 characters.)
\<close>

theorem artifact_paths:
  "(wav_path p1 = wav_path p2 \<longleftrightarrow> p1 = p2)
 \<and> transcript_path e1 m1 \<noteq> summary_path e2 m2
 \<and> transcript_path e1 m1 \<noteq> wav_path p1
 \<and> summary_path e1 m1 \<noteq> wav_path p1
 \<and> (19 \<le> length (transcript_now e1) \<and> 19 \<le> length (transcript_now e2) \<longrightarrow>
      (transcript_path e1 m1 = transcript_path e2 m2 \<longleftrightarrow>
         timestamp_of (transcript_now e1) = timestamp_of (transcript_now e2)
       \<and> name_suffix m1 = name_suffix m2))
 \<and> (19 \<le> length (summary_now e1) \<and> 19 \<le> length (summary_now e2) \<longrightarrow>
      (summary_path e1 m1 = summary_path e2 m2 \<longleftrightarrow>
         timestamp_of (summary_now e1) = timestamp_of (summary_now e2)
       \<and> name_suffix m1 = name_suffix m2))"
proof -
  have w: "wav_path p1 = wav_path p2 \<longleftrightarrow> p1 = p2"
    by (simp add: wav_path_def path_join_def)
  have t: "transcript_path e1 m1 = transcript_path e2 m2 \<longleftrightarrow>
         timestamp_of (transcript_now e1) = timestamp_of (transcript_now e2)
       \<and> name_suffix m1 = name_suffix m2"
    if "19 \<le> length (transcript_now e1) \<and> 19 \<le> length (transcript_now e2)"
    using that save_name_eq_iff [of "transcript_now e1" "transcript_now e2" "''transcript''" m1 m2]
    by (simp add: transcript_path_def path_join_def)
  have s: "summary_path e1 m1 = summary_path e2 m2 \<longleftrightarrow>
         timestamp_of (summary_now e1) = timestamp_of (summary_now e2)
       \<and> name_suffix m1 = name_suffix m2"
    if "19 \<le> length (summary_now e1) \<and> 19 \<le> length (summary_now e2)"
    using that save_name_eq_iff [of "summary_now e1" "summary_now e2" "''summary''" m1 m2]
    by (simp add: summary_path_def path_join_def)
  from w t s artifact_paths_differ(1,3,5) show ?thesis by blast
qed

theorem artifact_paths_witness:
  "19 \<le> length (transcript_now env_ok) \<and> 19 \<le> length (transcript_now env_second)
 \<and> transcript_path env_ok acme_md = transcript_path env_second acme_md
 \<and> timestamp_of (transcript_now env_ok) = timestamp_of (transcript_now env_second)
 \<and> wav_path (uuidv4 (\<lambda>i. i)) \<noteq> wav_path (uuidv4 (\<lambda>i. i + 7))"
proof -
  have len: "19 \<le> length (transcript_now env_ok) \<and> 19 \<le> length (transcript_now env_second)"
    by (simp add: env_ok_simps env_second_simps)
  have ts: "timestamp_of (transcript_now env_ok) = timestamp_of (transcript_now env_second)"
    by (simp add: env_ok_simps env_second_simps timestamp_of_def)
  have ids: "uuidv4 (\<lambda>i. i) \<noteq> uuidv4 (\<lambda>i. i + 7)"
    by (simp add: uuid_id uuid_shift)
  show ?thesis
    using artifact_paths [of "uuidv4 (\<lambda>i. i)" "uuidv4 (\<lambda>i. i + 7)" env_ok acme_md env_second acme_md]
      len ts ids
    by blast
qed

subsection \<open>C10: a summary that cannot be saved\<close>

text \<open>
  C10. When ollama succeeds (exit code zero, output not empty after \<open>trim()\<close>) and
  writing the summary file fails, the failure is swallowed: \<open>generateSummary\<close> still
  resolves with the summary and writes no file, the summary step is \<open>completed\<close>, the
  summary text is recorded in \<open>results\<close>, and the job ends with status \<open>completed\<close> and
  no error.
\<close>

theorem summary_save_failure_swallowed:
  assumes fresh: "objs w this = AudioProcessor pid file md"
    and conv: "ffmpeg e = Close (Some 0)"
    and whisp: "whisper e = Close (Some 0)" "whisper_txt e = Some t" "transcript_write e = None"
    and summ: "ollama e = Close (Some 0)" "trim (ollama_stdout e) \<noteq> []"
    and save: "summary_write e = Some err"
  shows "fst (generateSummary this (trim t) e w1) = Inr (trim (ollama_stdout e))
       \<and> files (snd (generateSummary this (trim t) e w1)) = files w1
       \<and> fst (process this e w) = Inr (trim t, trim (ollama_stdout e), md)
       \<and> step_status (steps (objs (snd (process this e w)) this) Summary) = Completed
       \<and> summary (results (objs (snd (process this e w)) this)) = Some (trim (ollama_stdout e))
       \<and> status (objs (snd (process this e w)) this) = Completed
       \<and> error (objs (snd (process this e w)) this) = None
       \<and> files (snd (process this e w)) (summary_path e md) = files w (summary_path e md)"
proof -
  from summ have ok: "summary_ok e" by (simp add: summary_ok_def)
  note pc = process_completes [OF fresh conv whisp ok]
  show ?thesis
    using ok save
    by (simp add: pc fst_generateSummary files_generateSummary final_steps_def
          AudioProcessor_def)
qed

theorem summary_save_failure_swallowed_witness:
  "status (objs (snd (process 0 env_summary_unsaved acme_world)) 0) = Completed
 \<and> step_status (steps (objs (snd (process 0 env_summary_unsaved acme_world)) 0) Summary) = Completed
 \<and> summary (results (objs (snd (process 0 env_summary_unsaved acme_world)) 0)) = Some ''SUMMARY TEXT''
 \<and> files (snd (process 0 env_summary_unsaved acme_world)) (summary_path env_summary_unsaved acme_md) = None"
proof -
  have e: "ffmpeg env_summary_unsaved = Close (Some 0)" "whisper env_summary_unsaved = Close (Some 0)"
    "whisper_txt env_summary_unsaved = Some '' HELLO ''" "transcript_write env_summary_unsaved = None"
    "ollama env_summary_unsaved = Close (Some 0)" "trim (ollama_stdout env_summary_unsaved) \<noteq> []"
    "summary_write env_summary_unsaved = Some ''ENOSPC: no space left on device, write''"
    by (simp_all add: env_summary_unsaved_def env_ok_simps trim_hello acme_md_simps)
  have t: "trim (ollama_stdout env_summary_unsaved) = ''SUMMARY TEXT''"
    by (simp add: env_summary_unsaved_def env_ok_simps trim_hello)
  show ?thesis
    using summary_save_failure_swallowed [OF acme_world_simps(1) e, of acme_world] t
    by (simp add: acme_world_simps)
qed

end
